theory Spec2Isabelle
  imports Complex_Main
begin

chapter \<open>The LZWTool test harness\<close>

text \<open>
  The repository's Python sources are four test drivers around a command-line
  compressor, \<^verbatim>\<open>java LZWTool\<close>: \<^verbatim>\<open>comprehensive_test.py\<close>, \<^verbatim>\<open>test_lru.py\<close>,
  \<^verbatim>\<open>test_all_policies.py\<close> and \<^verbatim>\<open>verify_policies_differ.py\<close>. The drivers write
  files, start the tool as a child process, compare what comes back and print a log.
  The embedding makes each of these effects a value:
  \<^item> the file system is a map from paths to the bytes of the files, threaded through
    every function;
  \<^item> the printed log is a list of entries in the same state;
  \<^item> the state of Python's global random generator is a field of the state;
  \<^item> a raised exception is the left summand of the result;
  \<^item> the child process, the temporary-file name chooser, the random generator and the
    directories that exist are not code of the drivers; they are the fields of an
    environment record that every function takes as its first argument.

  The platform is the one the drivers are written for: POSIX, with UTF-8 as the
  encoding of text and the line feed as the line separator.
\<close>

section \<open>Python values\<close>

datatype py_error =
    OSError string
  | FileNotFoundError string
  | UnicodeDecodeError
  | ValueError string
  | IndexError
  | KeyError string
  | ZeroDivisionError
  | TypeError
  | SystemExit int

text \<open>Python's \<^verbatim>\<open>a / b\<close> on integers: true division, raising on a zero divisor.
  The quotient is kept exact (a rational); floating-point rounding is not modelled.\<close>

definition py_truediv :: "int \<Rightarrow> int \<Rightarrow> py_error + rat" where
  "py_truediv a b = (if b = 0 then Inl ZeroDivisionError else Inr (of_int a / of_int b))"

text \<open>\<^verbatim>\<open>str(i)\<close> for an integer: its decimal digits, with a minus sign when negative.\<close>

definition digit_char :: "nat \<Rightarrow> char" where
  "digit_char d = ''0123456789'' ! d"

function str_nat :: "nat \<Rightarrow> string" where
  "str_nat n = (if n < 10 then [digit_char n] else str_nat (n div 10) @ [digit_char (n mod 10)])"
  by pat_completeness auto
termination
  by (relation "measure id") auto

declare str_nat.simps [simp del]

definition py_str :: "int \<Rightarrow> string" where
  "py_str i = (if i < 0 then CHR ''-'' # str_nat (nat (- i)) else str_nat (nat i))"

text \<open>\<^verbatim>\<open>s * k\<close> on a string.\<close>

definition py_mul :: "string \<Rightarrow> nat \<Rightarrow> string" where
  "py_mul s k = concat (replicate k s)"

text \<open>\<^verbatim>\<open>int.bit_length()\<close>: the number of binary digits of the absolute value.\<close>

function bit_length :: "int \<Rightarrow> nat" where
  "bit_length n = (if n = 0 then 0 else Suc (bit_length (\<bar>n\<bar> div 2)))"
  by pat_completeness auto
termination
  by (relation "measure (\<lambda>n. nat \<bar>n\<bar>)") auto

declare bit_length.simps [simp del]

text \<open>\<^verbatim>\<open>sub in s\<close> on strings.\<close>

fun starts_with :: "string \<Rightarrow> string \<Rightarrow> bool" where
  "starts_with [] s = True"
| "starts_with (x # xs) [] = False"
| "starts_with (x # xs) (y # ys) = (x = y \<and> starts_with xs ys)"

fun py_in :: "string \<Rightarrow> string \<Rightarrow> bool" where
  "py_in sub [] = (sub = [])"
| "py_in sub (y # ys) = (starts_with sub (y # ys) \<or> py_in sub ys)"

text \<open>\<^verbatim>\<open>a < b\<close> on strings: the lexicographic order of the code points, which is
  the lexicographic order of the bytes of their UTF-8 encodings.\<close>

fun str_less :: "string \<Rightarrow> string \<Rightarrow> bool" where
  "str_less [] [] = False"
| "str_less [] (y # ys) = True"
| "str_less (x # xs) [] = False"
| "str_less (x # xs) (y # ys) =
     ((of_char x :: nat) < of_char y \<or> (x = y \<and> str_less xs ys))"

text \<open>Truthiness of a value that is \<^verbatim>\<open>None\<close> or a number, as \<^verbatim>\<open>if x:\<close> reads it.\<close>

definition truthy :: "rat option \<Rightarrow> bool" where
  "truthy x = (case x of None \<Rightarrow> False | Some r \<Rightarrow> r \<noteq> 0)"

section \<open>Text and bytes\<close>

text \<open>
  A \<^verbatim>\<open>bytes\<close> value and the content of a file are lists of 8-bit characters. A
  \<^verbatim>\<open>str\<close> is represented by its UTF-8 encoding; a \<^verbatim>\<open>str\<close> with a lone surrogate
  has no representation. Writing a \<^verbatim>\<open>str\<close> to a file opened in text mode stores
  these bytes unchanged. Concatenation, repetition, comparison and the substring test on
  \<^verbatim>\<open>str\<close> are the same operations on the encodings.

  \<open>utf8_head\<close> looks at the front of a byte string as Python's UTF-8 decoder does: it
  gives the number of bytes of the first code point, or, with \<open>False\<close>, the number of
  bytes the decoder reports as one error (an invalid start byte, an invalid
  continuation byte, or an unexpected end of the data). Overlong forms, surrogates and
  code points above \<^verbatim>\<open>U+10FFFF\<close> are errors.
\<close>

definition is_continuation :: "char \<Rightarrow> bool" where
  "is_continuation c = (0x80 \<le> (of_char c :: nat) \<and> (of_char c :: nat) < 0xC0)"

definition second_ok :: "char \<Rightarrow> char \<Rightarrow> bool" where
  "second_ok lead c =
     (is_continuation c
      \<and> \<not> (if (of_char c :: nat) < 0xA0 then lead = CHR 0xE0 else lead = CHR 0xED)
      \<and> \<not> (if (of_char c :: nat) < 0x90 then lead = CHR 0xF0 else lead = CHR 0xF4))"

fun utf8_head :: "string \<Rightarrow> nat \<times> bool" where
  "utf8_head [] = (0, True)"
| "utf8_head (b # bs) =
     (let k = (of_char b :: nat) in
      if k < 0x80 then (1, True)
      else if k < 0xC2 \<or> 0xF5 \<le> k then (1, False)
      else if k < 0xE0 then
        (case bs of
           [] \<Rightarrow> (1, False)
         | c # cs \<Rightarrow> if is_continuation c then (2, True) else (1, False))
      else
        (case bs of
           [] \<Rightarrow> (1, False)
         | c # cs \<Rightarrow>
             if \<not> second_ok b c then (1, False)
             else (case cs of
                     [] \<Rightarrow> (2, False)
                   | d # ds \<Rightarrow>
                       if \<not> is_continuation d then (2, False)
                       else if k < 0xF0 then (3, True)
                       else (case ds of
                               [] \<Rightarrow> (3, False)
                             | x # xs \<Rightarrow>
                                 if is_continuation x then (4, True) else (3, False)))))"

text \<open>The bytes are well-formed UTF-8: the decoder meets no error.\<close>

function utf8_valid :: "string \<Rightarrow> bool" where
  "utf8_valid [] = True"
| "utf8_valid (b # bs) =
     (snd (utf8_head (b # bs)) \<and> utf8_valid (drop (fst (utf8_head (b # bs))) (b # bs)))"
  by pat_completeness auto
termination
  by (relation "measure length") (auto simp: Let_def split: list.splits)

declare utf8_valid.simps [simp del]

text \<open>\<^verbatim>\<open>data.decode()\<close>: strict decoding, which raises \<^verbatim>\<open>UnicodeDecodeError\<close> at
  the first error.\<close>

definition py_decode :: "string \<Rightarrow> py_error + string" where
  "py_decode data = (if utf8_valid data then Inr data else Inl UnicodeDecodeError)"

text \<open>Decoding with \<^verbatim>\<open>errors='ignore'\<close>: the bytes of every error are left out.\<close>

function decode_ignore :: "string \<Rightarrow> string" where
  "decode_ignore [] = []"
| "decode_ignore (b # bs) =
     (if snd (utf8_head (b # bs)) then take (fst (utf8_head (b # bs))) (b # bs) else [])
     @ decode_ignore (drop (fst (utf8_head (b # bs))) (b # bs))"
  by pat_completeness auto
termination
  by (relation "measure length") (auto simp: Let_def split: list.splits)

declare decode_ignore.simps [simp del]

text \<open>Universal newlines, applied to text that is read: a carriage return, alone or
  followed by a line feed, becomes a line feed.\<close>

fun universal_newlines :: "string \<Rightarrow> string" where
  "universal_newlines [] = []"
| "universal_newlines [c] = (if c = CHR 0x0D then [CHR 0x0A] else [c])"
| "universal_newlines (c # d # s) =
     (if c = CHR 0x0D
      then CHR 0x0A # (if d = CHR 0x0A then universal_newlines s else universal_newlines (d # s))
      else c # universal_newlines (d # s))"

text \<open>\<^verbatim>\<open>open(path, 'r').read()\<close> on the bytes of the file, and the decoding of the
  output of a child process that runs with \<^verbatim>\<open>text=True\<close>.\<close>

definition read_text :: "string \<Rightarrow> py_error + string" where
  "read_text data =
     (case py_decode data of Inl ex \<Rightarrow> Inl ex | Inr t \<Rightarrow> Inr (universal_newlines t))"

text \<open>\<^verbatim>\<open>len(s)\<close> on a \<^verbatim>\<open>str\<close>: the number of code points, each of which has
  one byte that is not a continuation byte.\<close>

definition py_len :: "string \<Rightarrow> nat" where
  "py_len s = length (filter (\<lambda>c. \<not> is_continuation c) s)"

text \<open>
  \<^verbatim>\<open>s.strip()\<close> removes the code points for which \<^verbatim>\<open>str.isspace\<close> holds at both
  ends: \<^verbatim>\<open>U+0009\<close> to \<^verbatim>\<open>U+000D\<close>, \<^verbatim>\<open>U+001C\<close> to \<^verbatim>\<open>U+0020\<close>, \<^verbatim>\<open>U+0085\<close>,
  \<^verbatim>\<open>U+00A0\<close>, \<^verbatim>\<open>U+1680\<close>, \<^verbatim>\<open>U+2000\<close> to \<^verbatim>\<open>U+200A\<close>, \<^verbatim>\<open>U+2028\<close>, \<^verbatim>\<open>U+2029\<close>,
  \<^verbatim>\<open>U+202F\<close>, \<^verbatim>\<open>U+205F\<close> and \<^verbatim>\<open>U+3000\<close>, by the length of their encodings.
\<close>

definition space1 :: "char \<Rightarrow> bool" where
  "space1 a = ((of_char a :: nat) \<in> {0x09..0x0D} \<union> {0x1C..0x20})"

definition space2 :: "char \<Rightarrow> char \<Rightarrow> bool" where
  "space2 a b = (a = CHR 0xC2 \<and> (b = CHR 0x85 \<or> b = CHR 0xA0))"

definition space3 :: "char \<Rightarrow> char \<Rightarrow> char \<Rightarrow> bool" where
  "space3 a b c =
     ((a = CHR 0xE1 \<and> b = CHR 0x9A \<and> c = CHR 0x80)
      \<or> (a = CHR 0xE2 \<and> b = CHR 0x80
          \<and> ((of_char c :: nat) \<in> {0x80..0x8A} \<or> c = CHR 0xA8 \<or> c = CHR 0xA9 \<or> c = CHR 0xAF))
      \<or> (a = CHR 0xE2 \<and> b = CHR 0x81 \<and> c = CHR 0x9F)
      \<or> (a = CHR 0xE3 \<and> b = CHR 0x80 \<and> c = CHR 0x80))"

fun py_lstrip :: "string \<Rightarrow> string" where
  "py_lstrip [] = []"
| "py_lstrip [a] = (if space1 a then [] else [a])"
| "py_lstrip [a, b] = (if space1 a then py_lstrip [b] else if space2 a b then [] else [a, b])"
| "py_lstrip (a # b # c # s) =
     (if space1 a then py_lstrip (b # c # s)
      else if space2 a b then py_lstrip (c # s)
      else if space3 a b c then py_lstrip s
      else a # b # c # s)"

text \<open>The same from the other end, on the reversed string.\<close>

fun rstrip_rev :: "string \<Rightarrow> string" where
  "rstrip_rev [] = []"
| "rstrip_rev [c] = (if space1 c then [] else [c])"
| "rstrip_rev [c, b] = (if space1 c then rstrip_rev [b] else if space2 b c then [] else [c, b])"
| "rstrip_rev (c # b # a # s) =
     (if space1 c then rstrip_rev (b # a # s)
      else if space2 b c then rstrip_rev (a # s)
      else if space3 a b c then rstrip_rev s
      else c # b # a # s)"

definition py_strip :: "string \<Rightarrow> string" where
  "py_strip s = rev (rstrip_rev (rev (py_lstrip s)))"

section \<open>Processes, files and the log\<close>

text \<open>What \<^verbatim>\<open>subprocess.run\<close> returns; \<open>stdout\<close> and \<open>stderr\<close> are what the child
  wrote to the two streams.\<close>

record completed_process =
  returncode :: int
  stdout :: string
  stderr :: string

text \<open>
  The environment of a driver. \<open>run argv stdin\<close> is the child process of
  \<^verbatim>\<open>subprocess.run\<close>: the command line and the bytes on the child's standard input
  (\<open>None\<close> when the call passes neither \<^verbatim>\<open>stdin\<close> nor \<^verbatim>\<open>input\<close>); it yields the
  completed process with the bytes the child wrote, or \<open>Inl m\<close> when the program cannot
  be started and \<^verbatim>\<open>OSError(m)\<close> is raised.
  \<open>mktemp files suffix\<close> is the name \<^verbatim>\<open>tempfile.NamedTemporaryFile\<close> picks.
  \<open>randbelow g n\<close> is one draw of the global generator (an index and the next state),
  \<open>seed\<close> the state \<^verbatim>\<open>random.seed\<close> installs.
  \<open>isdir\<close> says which paths are directories; no driver creates or removes one.
\<close>

record 'g env =
  run :: "string list \<Rightarrow> string option \<Rightarrow> string + completed_process"
  mktemp :: "(string \<rightharpoonup> string) \<Rightarrow> string \<Rightarrow> string"
  randbelow :: "'g \<Rightarrow> nat \<Rightarrow> nat \<times> 'g"
  seed :: "int \<Rightarrow> 'g"
  isdir :: "string \<Rightarrow> bool"

text \<open>
  \<^verbatim>\<open>subprocess.run(..., capture_output=True, text=True)\<close>: the two streams are
  decoded and their newlines translated before the call returns, and bytes that are not
  UTF-8 make the call raise \<^verbatim>\<open>UnicodeDecodeError\<close>. A call with \<^verbatim>\<open>text=False\<close>
  is \<open>run\<close> itself.
\<close>

definition run_text ::
  "'g env \<Rightarrow> string list \<Rightarrow> string option \<Rightarrow> py_error + completed_process" where
  "run_text e argv stdin =
     (case run e argv stdin of
        Inl m \<Rightarrow> Inl (OSError m)
      | Inr result \<Rightarrow>
          (case read_text (stdout result) of
             Inl ex \<Rightarrow> Inl ex
           | Inr out \<Rightarrow>
               (case read_text (stderr result) of
                  Inl ex \<Rightarrow> Inl ex
                | Inr err \<Rightarrow> Inr (result\<lparr>stdout := out, stderr := err\<rparr>))))"

text \<open>
  A piece of a formatted message: literal text, or an interpolated integer, float or
  exception. Field widths and precisions (\<^verbatim>\<open>:25s\<close>, \<^verbatim>\<open>:6d\<close>, \<^verbatim>\<open>:.3f\<close>) are not
  modelled; the value is kept instead of its rendering.
\<close>

datatype part = Str string | Num int | Flt rat | Exc py_error

datatype level = TEST | PASS | FAIL | WARN | PLAIN

record 'g world =
  fs :: "string \<rightharpoonup> string"
  printed :: "(level \<times> part list) list"
  rng :: 'g

definition log_test :: "part list \<Rightarrow> 'g world \<Rightarrow> 'g world" where
  "log_test message w = w\<lparr>printed := printed w @ [(TEST, message)]\<rparr>"

definition log_pass :: "part list \<Rightarrow> 'g world \<Rightarrow> 'g world" where
  "log_pass message w = w\<lparr>printed := printed w @ [(PASS, message)]\<rparr>"

definition log_fail :: "part list \<Rightarrow> 'g world \<Rightarrow> 'g world" where
  "log_fail message w = w\<lparr>printed := printed w @ [(FAIL, message)]\<rparr>"

definition log_warn :: "part list \<Rightarrow> 'g world \<Rightarrow> 'g world" where
  "log_warn message w = w\<lparr>printed := printed w @ [(WARN, message)]\<rparr>"

text \<open>A bare \<^verbatim>\<open>print\<close>. The colour codes of the messages are left out.\<close>

definition py_print :: "part list \<Rightarrow> 'g world \<Rightarrow> 'g world" where
  "py_print message w = w\<lparr>printed := printed w @ [(PLAIN, message)]\<rparr>"

text \<open>The check mark and the cross of the messages, as their UTF-8 bytes.\<close>

definition check_mark :: string where
  "check_mark = [CHR 0xE2, CHR 0x9C, CHR 0x93]"

definition cross_mark :: string where
  "cross_mark = [CHR 0xE2, CHR 0x9C, CHR 0x97]"

text \<open>Two statements in sequence: the second runs on the value and the state of the
  first, unless the first raised.\<close>

definition and_then ::
  "(py_error + 'a) \<times> 'w \<Rightarrow> ('a \<Rightarrow> 'w \<Rightarrow> (py_error + 'b) \<times> 'w) \<Rightarrow> (py_error + 'b) \<times> 'w" where
  "and_then m f = (case m of (Inl ex, w) \<Rightarrow> (Inl ex, w) | (Inr a, w) \<Rightarrow> f a w)"

text \<open>Opening a file for writing creates or truncates it; the bytes written replace
  its content.\<close>

definition write_file :: "string \<Rightarrow> string \<Rightarrow> 'g world \<Rightarrow> 'g world" where
  "write_file path content w = w\<lparr>fs := (fs w)(path \<mapsto> content)\<rparr>"

text \<open>
  The exception \<^verbatim>\<open>open(path, 'w')\<close> raises, if any, for a path that the driver
  builds from a name it is given: \<^verbatim>\<open>ValueError\<close> for a path with a null character,
  \<^verbatim>\<open>FileNotFoundError\<close> when the part before the last \<^verbatim>\<open>/\<close> is not a directory. A
  path without \<^verbatim>\<open>/\<close> is in the working directory, where the drivers can write.
\<close>

definition dir_part :: "string \<Rightarrow> string" where
  "dir_part path = rev (tl (dropWhile (\<lambda>c. c \<noteq> CHR ''/'') (rev path)))"

definition open_w :: "'g env \<Rightarrow> string \<Rightarrow> py_error option" where
  "open_w e path =
     (if CHR 0x00 \<in> set path then Some (ValueError ''embedded null byte'')
      else if CHR ''/'' \<in> set path \<and> \<not> isdir e (dir_part path)
      then Some (FileNotFoundError path)
      else None)"

text \<open>The \<^verbatim>\<open>finally\<close> block of the three round-trip functions:
  \<^verbatim>\<open>for f in [...]: if os.path.exists(f): os.remove(f)\<close>.\<close>

fun cleanup :: "string list \<Rightarrow> 'g world \<Rightarrow> 'g world" where
  "cleanup [] w = w"
| "cleanup (f # rest) w =
     cleanup rest (if fs w f \<noteq> None then w\<lparr>fs := (fs w)(f := None)\<rparr> else w)"

text \<open>The two command lines every driver uses.\<close>

definition compress_argv :: "string \<Rightarrow> string \<Rightarrow> string \<Rightarrow> string \<Rightarrow> string list" where
  "compress_argv minW maxW policy alphabet_path =
     [''java'', ''LZWTool'', ''--mode'', ''compress'', ''--minW'', minW,
      ''--maxW'', maxW, ''--policy'', policy, ''--alphabet'', alphabet_path]"

definition expand_argv :: "string list" where
  "expand_argv = [''java'', ''LZWTool'', ''--mode'', ''expand'']"

section \<open>comprehensive\_test.py\<close>

subsection \<open>pick\_bitwidths\<close>

definition pick_bitwidths :: "int \<Rightarrow> int \<times> int" where
  "pick_bitwidths alphabet_size =
     (let minW = max 2 (int (bit_length (alphabet_size - 1)));
          maxW = minW + 2
      in (minW, maxW))"

subsection \<open>compress\_expand\_test\<close>

text \<open>
  The body of the \<^verbatim>\<open>try\<close> block, in its three stages. Each stage returns the
  function's result, or the exception that leaves the block, with the state reached.
  The three paths are \<open>name\<close>, \<open>name.lzw\<close> and \<open>name.out\<close>, so no two of them are
  the same file. The child reads the bytes of the input file and writes bytes to the
  output file; its error stream is decoded with \<^verbatim>\<open>.decode()\<close> when the message is
  built, and the decompressed file is read back in text mode.
\<close>

definition cet_compare ::
  "string \<Rightarrow> string \<Rightarrow> string \<Rightarrow> string \<Rightarrow> 'g world
     \<Rightarrow> (py_error + bool \<times> rat option) \<times> 'g world" where
  "cet_compare input_data test_name compressed_file decompressed_file w =
     (case fs w decompressed_file of
        None \<Rightarrow> (Inl (FileNotFoundError decompressed_file), w)
      | Some content \<Rightarrow>
          (case read_text content of
             Inl ex \<Rightarrow> (Inl ex, w)
           | Inr output_data \<Rightarrow>
               if input_data = output_data then
                 (case fs w compressed_file of
                    None \<Rightarrow> (Inl (FileNotFoundError compressed_file), w)
                  | Some c \<Rightarrow>
                      let compressed_size = int (length c);
                          original_size = int (py_len input_data)
                      in (case (if original_size > 0
                                then py_truediv compressed_size (max original_size 1)
                                else Inr 0) of
                            Inl ex \<Rightarrow> (Inl ex, w)
                          | Inr ratio \<Rightarrow> (Inr (True, Some ratio), w)))
               else
                 (Inr (False, None),
                  log_fail [Str ''  Input length: '', Num (int (py_len input_data)),
                            Str '', Output length: '', Num (int (py_len output_data))]
                    (log_fail [Str test_name, Str '' - Output doesn't match input!''] w))))"

definition cet_expand ::
  "'g env \<Rightarrow> string \<Rightarrow> string \<Rightarrow> string \<Rightarrow> string \<Rightarrow> 'g world
     \<Rightarrow> (py_error + bool \<times> rat option) \<times> 'g world" where
  "cet_expand e input_data test_name compressed_file decompressed_file w =
     (case fs w compressed_file of
        None \<Rightarrow> (Inl (FileNotFoundError compressed_file), w)
      | Some infile \<Rightarrow>
          let w1 = write_file decompressed_file [] w in
          (case run e expand_argv (Some infile) of
             Inl m \<Rightarrow> (Inl (OSError m), w1)
           | Inr result \<Rightarrow>
               let w2 = write_file decompressed_file (stdout result) w1 in
               if returncode result \<noteq> 0 then
                 (case py_decode (stderr result) of
                    Inl ex \<Rightarrow> (Inl ex, w2)
                  | Inr message \<Rightarrow>
                      (Inr (False, None),
                       log_fail [Str test_name, Str '' - Decompression failed: '',
                                 Str message] w2))
               else cet_compare input_data test_name compressed_file decompressed_file w2))"

definition cet_compress ::
  "'g env \<Rightarrow> string \<Rightarrow> string \<Rightarrow> int \<Rightarrow> int \<Rightarrow> string \<Rightarrow> string
     \<Rightarrow> string \<Rightarrow> string \<Rightarrow> string \<Rightarrow> 'g world
     \<Rightarrow> (py_error + bool \<times> rat option) \<times> 'g world" where
  "cet_compress e input_data alphabet_path minW maxW policy test_name
       input_file compressed_file decompressed_file w =
     (case fs w input_file of
        None \<Rightarrow> (Inl (FileNotFoundError input_file), w)
      | Some infile \<Rightarrow>
          let w1 = write_file compressed_file [] w in
          (case run e (compress_argv (py_str minW) (py_str maxW) policy alphabet_path)
                  (Some infile) of
             Inl m \<Rightarrow> (Inl (OSError m), w1)
           | Inr result \<Rightarrow>
               let w2 = write_file compressed_file (stdout result) w1 in
               if returncode result \<noteq> 0 then
                 (case py_decode (stderr result) of
                    Inl ex \<Rightarrow> (Inl ex, w2)
                  | Inr message \<Rightarrow>
                      (Inr (False, None),
                       log_fail [Str test_name, Str '' - Compression failed: '',
                                 Str message] w2))
               else cet_expand e input_data test_name compressed_file decompressed_file w2))"

text \<open>The function: the temporary input file, the \<^verbatim>\<open>try\<close> block, and the
  \<^verbatim>\<open>finally\<close> block, which runs on every way out. The temporary file is created
  in the directory for temporary files, which exists and can be written to, and the two
  other files are its siblings there.\<close>

definition compress_expand_test ::
  "'g env \<Rightarrow> string \<Rightarrow> string \<Rightarrow> int \<Rightarrow> int \<Rightarrow> string \<Rightarrow> string \<Rightarrow> 'g world
     \<Rightarrow> (py_error + bool \<times> rat option) \<times> 'g world" where
  "compress_expand_test e input_data alphabet_path minW maxW policy test_name w =
     (let input_file = mktemp e (fs w) ''.txt'';
          w1 = write_file input_file input_data w;
          compressed_file = input_file @ ''.lzw'';
          decompressed_file = input_file @ ''.out'';
          (res, w2) = cet_compress e input_data alphabet_path minW maxW policy test_name
                        input_file compressed_file decompressed_file w1
      in (res, cleanup [input_file, compressed_file, decompressed_file] w2))"

subsection \<open>generate\_test\_sequences\<close>

text \<open>
  \<^verbatim>\<open>random.choice(seq)\<close> is \<^verbatim>\<open>seq[randbelow(len(seq))]\<close>. The generator of the
  environment is any function; its draw is reduced modulo the length so that it is an
  index of the sequence, as a draw of Python's generator is. Every caller passes a
  sequence that is not empty.
\<close>

definition random_choice :: "'g env \<Rightarrow> 'a list \<Rightarrow> 'g \<Rightarrow> 'a \<times> 'g" where
  "random_choice e xs g =
     (let (i, g') = randbelow e g (length xs) in (xs ! (i mod length xs), g'))"

text \<open>\<^verbatim>\<open>"".join(random.choice(chars) for _ in range(k))\<close>.\<close>

fun random_join :: "'g env \<Rightarrow> string list \<Rightarrow> nat \<Rightarrow> 'g \<Rightarrow> string \<times> 'g" where
  "random_join e chars 0 g = ([], g)"
| "random_join e chars (Suc k) g =
     (let (c, g1) = random_choice e chars g;
          (rest, g2) = random_join e chars k g1
      in (c @ rest, g2))"

text \<open>
  The dictionary of test sequences, as the list of its items in insertion order (the
  keys are distinct). \<^verbatim>\<open>chars[0]\<close> raises \<^verbatim>\<open>IndexError\<close> on an empty alphabet,
  before any draw.
\<close>

definition generate_test_sequences ::
  "'g env \<Rightarrow> string list \<Rightarrow> 'g \<Rightarrow> (py_error + (string \<times> string) list) \<times> 'g" where
  "generate_test_sequences e chars g =
     (case chars of
        [] \<Rightarrow> (Inl IndexError, g)
      | c0 # cs \<Rightarrow>
          let n = length chars;
              cl = last chars;
              basic = [(''empty'', []), (''single_first'', c0), (''single_last'', cl)];
              pairs1 =
                (if n \<ge> 2 then
                   [(''alternating_first_last'', py_mul (c0 @ cl) 50),
                    (''repeating_pattern'', py_mul (py_mul c0 3 @ py_mul (chars ! 1) 3) 10),
                    (''alternating_ab'', py_mul (c0 @ chars ! 1) 100),
                    (''edge_case'',
                       py_mul (chars ! 1) 5 @ c0 @ py_mul (chars ! 1) 2 @ py_mul c0 3
                       @ py_mul (chars ! 1) 3 @ c0 @ py_mul (chars ! 1) 2 @ py_mul c0 3
                       @ py_mul (chars ! 1) 3),
                    (''aaaaabbbbbb'', py_mul c0 5 @ py_mul (chars ! 1) 6)]
                 else []);
              runs = [(''all_first'', py_mul c0 50), (''all_last'', py_mul cl 50)];
              (random_short, g1) = random_join e chars 20 g;
              (random_medium, g2) = random_join e chars 100 g1;
              (random_long, g3) = random_join e chars 500 g2;
              (random_very_long, g4) = random_join e chars 10000 g3;
              randoms = [(''random_short'', random_short), (''random_medium'', random_medium),
                         (''random_long'', random_long),
                         (''random_very_long'', random_very_long)];
              edges = [(''long_run_first_63'', py_mul c0 63),
                       (''long_run_last_64'', py_mul cl 64)];
              pairs2 =
                (if n \<ge> 2 then
                   [(''alternating_3_3'', py_mul (py_mul c0 3 @ py_mul (chars ! 1) 3) 20),
                    (''pattern_cross_boundary'', py_mul c0 7 @ py_mul cl 9 @ py_mul c0 15),
                    (''sequence_edge_case'',
                       py_mul c0 3 @ py_mul (chars ! 1) 3 @ py_mul c0 4
                       @ py_mul (chars ! 1) 5)]
                 else []);
              triples =
                (if n \<ge> 3 then
                   [(''pattern_complex'',
                       py_mul (py_mul c0 4 @ py_mul (chars ! 1) 3 @ py_mul (chars ! 2) 2) 15),
                    (''incremental_sequence'',
                       concat (map (\<lambda>i. chars ! (i mod n)) [0..<50]))]
                 else [])
          in (Inr (basic @ pairs1 @ runs @ randoms @ edges @ pairs2 @ triples), g4))"

subsection \<open>test\_alphabet\_suite\<close>

text \<open>\<^verbatim>\<open>str.upper()\<close> on ASCII text.\<close>

definition py_upper :: "string \<Rightarrow> string" where
  "py_upper s =
     map (\<lambda>c. let k = (of_char c :: nat)
               in if 97 \<le> k \<and> k \<le> 122 then char_of (k - 32) else c) s"

text \<open>One entry of \<^verbatim>\<open>policy_results\<close>: the dictionary with the keys
  \<^verbatim>\<open>name\<close>, \<^verbatim>\<open>size\<close> and \<^verbatim>\<open>ratio\<close>.\<close>

record policy_result =
  r_name :: string
  r_size :: int
  r_ratio :: "rat option"

definition policies :: "string list" where
  "policies = [''freeze'', ''reset'', ''lru'', ''lfu'']"

text \<open>
  The inner loop, over the items of \<^verbatim>\<open>sequences\<close>. The result is \<open>Some\<close> of the
  \<^verbatim>\<open>policy_results\<close> collected when the loop runs to its end, and \<open>None\<close> when a test
  fails and the suite returns \<^verbatim>\<open>False\<close>. Formatting a ratio that is
  \<^verbatim>\<open>None\<close> with \<^verbatim>\<open>:.3f\<close> raises \<^verbatim>\<open>TypeError\<close>.
\<close>

fun run_sequences ::
  "'g env \<Rightarrow> string \<Rightarrow> string \<Rightarrow> int \<Rightarrow> int \<Rightarrow> string \<Rightarrow> (string \<times> string) list
     \<Rightarrow> policy_result list \<Rightarrow> 'g world
     \<Rightarrow> (py_error + policy_result list option) \<times> 'g world" where
  "run_sequences e alphabet_name alphabet_file minW maxW policy [] policy_results w =
     (Inr (Some policy_results), w)"
| "run_sequences e alphabet_name alphabet_file minW maxW policy ((seq_name, seq_data) # rest)
       policy_results w =
     (if seq_data = [] then
        run_sequences e alphabet_name alphabet_file minW maxW policy rest policy_results w
      else
        let test_name = alphabet_name @ ''/'' @ policy @ ''/'' @ seq_name in
        case compress_expand_test e seq_data alphabet_file minW maxW policy test_name w of
          (Inl ex, w1) \<Rightarrow> (Inl ex, w1)
        | (Inr (success, ratio), w1) \<Rightarrow>
            if success then
              (case ratio of
                 None \<Rightarrow> (Inl TypeError, w1)
               | Some r \<Rightarrow>
                   run_sequences e alphabet_name alphabet_file minW maxW policy rest
                     (policy_results @
                        [\<lparr>r_name = seq_name, r_size = int (py_len seq_data),
                          r_ratio = ratio\<rparr>])
                     (log_pass [Str ''  '', Str seq_name, Str '' - Size: '',
                                Num (int (py_len seq_data)), Str '', Ratio: '', Flt r] w1))
            else
              (Inr None, log_fail [Str ''  '', Str seq_name, Str '' - FAILED''] w1))"

text \<open>The outer loop, over the policies; \<^verbatim>\<open>results\<close> as the list of its items.\<close>

fun run_policies ::
  "'g env \<Rightarrow> string \<Rightarrow> string \<Rightarrow> int \<Rightarrow> int \<Rightarrow> (string \<times> string) list \<Rightarrow> string list
     \<Rightarrow> (string \<times> policy_result list) list \<Rightarrow> 'g world
     \<Rightarrow> (py_error + (string \<times> policy_result list) list option) \<times> 'g world" where
  "run_policies e alphabet_name alphabet_file minW maxW sequences [] results w =
     (Inr (Some results), w)"
| "run_policies e alphabet_name alphabet_file minW maxW sequences (policy # rest) results w =
     (let w1 = log_test [Str [CHR 0x0A], Str ''Testing policy: '', Str (py_upper policy)] w in
      case run_sequences e alphabet_name alphabet_file minW maxW policy sequences [] w1 of
        (Inl ex, w2) \<Rightarrow> (Inl ex, w2)
      | (Inr None, w2) \<Rightarrow> (Inr None, w2)
      | (Inr (Some policy_results), w2) \<Rightarrow>
          run_policies e alphabet_name alphabet_file minW maxW sequences rest
            (results @ [(policy, policy_results)]) w2)"

text \<open>
  The check after the loops:
  \<^verbatim>\<open>next((r['ratio'] for r in results[p] if r['name'] == seq_name), None)\<close> for each
  policy, then the comparison of the \<^verbatim>\<open>lru\<close> and \<^verbatim>\<open>lfu\<close> ratios.
\<close>

definition lookup_ratio ::
  "(string \<times> policy_result list) list \<Rightarrow> string \<Rightarrow> string \<Rightarrow> py_error + rat option" where
  "lookup_ratio results seq_name p =
     (case map_of results p of
        None \<Rightarrow> Inl (KeyError p)
      | Some rs \<Rightarrow>
          Inr (case find (\<lambda>r. r_name r = seq_name) rs of
                 None \<Rightarrow> None
               | Some r \<Rightarrow> r_ratio r))"

fun ratios_of ::
  "(string \<times> policy_result list) list \<Rightarrow> string \<Rightarrow> string list
     \<Rightarrow> py_error + (string \<times> rat option) list" where
  "ratios_of results seq_name [] = Inr []"
| "ratios_of results seq_name (p # ps) =
     (case lookup_ratio results seq_name p of
        Inl ex \<Rightarrow> Inl ex
      | Inr r \<Rightarrow>
          (case ratios_of results seq_name ps of
             Inl ex \<Rightarrow> Inl ex
           | Inr rest \<Rightarrow> Inr ((p, r) # rest)))"

definition lru_lfu_check ::
  "(string \<times> policy_result list) list \<Rightarrow> 'g world \<Rightarrow> (py_error + bool) \<times> 'g world" where
  "lru_lfu_check results w =
     (let seq_name = ''random_very_long'' in
      case ratios_of results seq_name policies of
        Inl ex \<Rightarrow> (Inl ex, w)
      | Inr ratios \<Rightarrow>
          (case map_of ratios ''lru'' of
             None \<Rightarrow> (Inl (KeyError ''lru''), w)
           | Some lru \<Rightarrow>
               if truthy lru then
                 (case map_of ratios ''lfu'' of
                    None \<Rightarrow> (Inl (KeyError ''lfu''), w)
                  | Some lfu \<Rightarrow>
                      if truthy lfu then
                        (if lru \<noteq> lfu then
                           (case (lru, lfu) of
                              (Some a, Some b) \<Rightarrow>
                                (Inr True,
                                 log_pass [Str ''  '', Str seq_name, Str '': LRU ratio='',
                                           Flt a, Str '', LFU ratio='', Flt b,
                                           Str ('' (DIFFERENT ''
                                                @ [CHR 0xE2, CHR 0x9C, CHR 0x93] @ '')'')] w)
                            | _ \<Rightarrow> (Inl TypeError, w))
                         else
                           (Inr True,
                            log_warn [Str ''  '', Str seq_name,
                                      Str '': LRU and LFU have same ratio (might be coincidence)'']
                              w))
                      else (Inr True, w))
               else (Inr True, w)))"

definition test_alphabet_suite ::
  "'g env \<Rightarrow> string \<Rightarrow> string list \<Rightarrow> string \<Rightarrow> 'g world \<Rightarrow> (py_error + bool) \<times> 'g world" where
  "test_alphabet_suite e alphabet_name alphabet_chars alphabet_file w =
     (let w1 = log_test [Str [CHR 0x0A], Str (py_mul ''='' 60)] w;
          w2 = log_test [Str ''Testing alphabet: '', Str alphabet_name, Str '' ('',
                         Num (int (length alphabet_chars)), Str '' chars)''] w1;
          w3 = log_test [Str (py_mul ''='' 60)] w2;
          (minW, maxW) = pick_bitwidths (int (length alphabet_chars));
          w4 = log_test [Str ''Using minW='', Num minW, Str '', maxW='', Num maxW] w3
      in case generate_test_sequences e alphabet_chars (rng w4) of
           (Inl ex, g) \<Rightarrow> (Inl ex, w4\<lparr>rng := g\<rparr>)
         | (Inr sequences, g) \<Rightarrow>
             (case run_policies e alphabet_name alphabet_file minW maxW sequences policies []
                     (w4\<lparr>rng := g\<rparr>) of
                (Inl ex, w5) \<Rightarrow> (Inl ex, w5)
              | (Inr None, w5) \<Rightarrow> (Inr False, w5)
              | (Inr (Some results), w5) \<Rightarrow>
                  lru_lfu_check results
                    (log_test [Str [CHR 0x0A],
                               Str ''Verifying LRU/LFU differ on large sequences...''] w5)))"

subsection \<open>compile\_java\<close>

text \<open>\<^verbatim>\<open>sys.exit(1)\<close> raises \<^verbatim>\<open>SystemExit(1)\<close>.\<close>

definition compile_java :: "'g env \<Rightarrow> 'g world \<Rightarrow> (py_error + unit) \<times> 'g world" where
  "compile_java e w =
     (let w1 = log_test [Str ''Compiling Java files...''] w in
      case run_text e [''javac'', ''LZWTool.java'', ''BinaryStdIn.java'', ''BinaryStdOut.java'',
                       ''TSTmod.java''] None of
        Inl ex \<Rightarrow> (Inl ex, w1)
      | Inr result \<Rightarrow>
          if returncode result \<noteq> 0 then
            (Inl (SystemExit 1),
             log_fail [Str ''Compilation failed: '', Str (stderr result)] w1)
          else (Inr (), log_pass [Str ''Compilation successful''] w1))"

subsection \<open>test\_alphabet\_validation\<close>

text \<open>The function returns \<^verbatim>\<open>True\<close>, \<^verbatim>\<open>False\<close>, or nothing (\<^verbatim>\<open>None\<close>) when the
  picture is missing. The picture is opened in binary mode and its bytes are the
  standard input of the child.\<close>

definition test_alphabet_validation ::
  "'g env \<Rightarrow> 'g world \<Rightarrow> (py_error + bool option) \<times> 'g world" where
  "test_alphabet_validation e w =
     (let w1 = log_test [Str ''Testing alphabet validation (JPG with ab.txt - should FAIL)''] w;
          jpg_file = ''TestFiles/frosty.jpg''
      in case fs w1 jpg_file of
           None \<Rightarrow>
             (Inr None, log_warn [Str ''JPG file '', Str jpg_file, Str '' not found, skipping''] w1)
         | Some infile \<Rightarrow>
             (case run_text e [''java'', ''LZWTool'', ''--mode'', ''compress'', ''--minW'', ''3'',
                               ''--maxW'', ''4'', ''--policy'', ''freeze'',
                               ''--alphabet'', ''alphabets/ab.txt''] (Some infile) of
                Inl ex \<Rightarrow> (Inl ex, w1)
              | Inr result \<Rightarrow>
                  if returncode result \<noteq> 0 \<and> py_in ''not in the alphabet'' (stderr result)
                  then
                    (Inr (Some True),
                     log_pass [Str ''Correctly rejected invalid input: '',
                               Str (py_strip (stderr result))] w1)
                  else
                    (let w2 = log_fail [Str ''Should have rejected JPG with ab.txt alphabet. Return code: '',
                                        Num (returncode result)] w1
                     in (Inr (Some False),
                         if stderr result \<noteq> []
                         then py_print [Str ''  stderr: '', Str (stderr result)] w2
                         else w2))))"

subsection \<open>test\_edge\_cases\<close>

text \<open>
  Tests 1 to 6 and 8 have one shape: the title is logged, \<^verbatim>\<open>tests_total\<close> goes up,
  the tool runs with \<^verbatim>\<open>text=True\<close> on a command line and an input, and a condition on
  the completed process decides between \<^verbatim>\<open>log_pass\<close> with \<^verbatim>\<open>tests_passed += 1\<close>
  and \<^verbatim>\<open>log_fail\<close>. The pair is \<^verbatim>\<open>(tests_passed, tests_total)\<close>.
\<close>

definition edge_case ::
  "'g env \<Rightarrow> string \<Rightarrow> string list \<Rightarrow> string option \<Rightarrow> (completed_process \<Rightarrow> bool)
     \<Rightarrow> string \<Rightarrow> string \<Rightarrow> int \<times> int \<Rightarrow> 'g world \<Rightarrow> (py_error + int \<times> int) \<times> 'g world" where
  "edge_case e title argv stdin ok pass_message fail_message counts w =
     (let w1 = log_test [Str title] w;
          tests_passed = fst counts;
          tests_total = snd counts + 1
      in case run_text e argv stdin of
           Inl ex \<Rightarrow> (Inl ex, w1)
         | Inr result \<Rightarrow>
             if ok result
             then (Inr (tests_passed + 1, tests_total), log_pass [Str pass_message] w1)
             else (Inr (tests_passed, tests_total), log_fail [Str fail_message] w1))"

text \<open>Test 7 writes \<^verbatim>\<open>abc\<close> to a temporary file, runs the tool on it with
  \<^verbatim>\<open>text=False\<close>, looks for the message in the bytes of the error stream, decodes
  them for the log, and removes the file in a \<^verbatim>\<open>finally\<close> block with an unguarded
  \<^verbatim>\<open>os.remove\<close>.\<close>

definition os_remove :: "string \<Rightarrow> 'g world \<Rightarrow> (py_error + unit) \<times> 'g world" where
  "os_remove path w =
     (if fs w path = None then (Inl (FileNotFoundError path), w)
      else (Inr (), w\<lparr>fs := (fs w)(path := None)\<rparr>))"

definition edge_test_7 ::
  "'g env \<Rightarrow> int \<times> int \<Rightarrow> 'g world \<Rightarrow> (py_error + int \<times> int) \<times> 'g world" where
  "edge_test_7 e counts w =
     (let w1 = log_test [Str [CHR 0x0A], Str ''7. Input character not in alphabet''] w;
          tests_passed = fst counts;
          tests_total = snd counts + 1;
          test_file = mktemp e (fs w1) [];
          w2 = write_file test_file ''abc'' w1;
          body =
            (case fs w2 test_file of
               None \<Rightarrow> (Inl (FileNotFoundError test_file), w2)
             | Some infile \<Rightarrow>
                 (case run e [''java'', ''LZWTool'', ''--mode'', ''compress'',
                              ''--alphabet'', ''alphabets/ab.txt'', ''--minW'', ''3'',
                              ''--maxW'', ''4''] (Some infile) of
                    Inl m \<Rightarrow> (Inl (OSError m), w2)
                  | Inr result \<Rightarrow>
                      if returncode result \<noteq> 0 \<and> py_in ''not in the alphabet'' (stderr result)
                      then (case py_decode (stderr result) of
                              Inl ex \<Rightarrow> (Inl ex, w2)
                            | Inr message \<Rightarrow>
                                (Inr (tests_passed + 1, tests_total),
                                 log_pass [Str ''  Correctly rejected invalid character: '',
                                           Str (py_strip message)] w2))
                      else (Inr (tests_passed, tests_total),
                            log_fail [Str ''  Should have rejected character not in alphabet'']
                              w2)))
      in case os_remove test_file (snd body) of
           (Inl ex, w3) \<Rightarrow> (Inl ex, w3)
         | (Inr u, w3) \<Rightarrow> (fst body, w3))"

definition test_edge_cases :: "'g env \<Rightarrow> 'g world \<Rightarrow> (py_error + bool) \<times> 'g world" where
  "test_edge_cases e w =
     (let w0 = log_test [Str (py_mul ''='' 60)]
                 (log_test [Str ''Testing Edge Cases'']
                    (log_test [Str [CHR 0x0A], Str (py_mul ''='' 60)] w))
      in
      and_then
        (edge_case e (CHR 0x0A # ''1. Missing --mode argument'')
           [''java'', ''LZWTool'', ''--alphabet'', ''alphabets/ab.txt''] None
           (\<lambda>result. returncode result \<noteq> 0)
           ''  Correctly rejected missing --mode'' ''  Should have rejected missing --mode''
           (0, 0) w0)
        (\<lambda>counts w.
      and_then
        (edge_case e (CHR 0x0A # ''2. Invalid --mode value'')
           [''java'', ''LZWTool'', ''--mode'', ''invalid''] None
           (\<lambda>result. returncode result \<noteq> 0)
           ''  Correctly rejected invalid mode'' ''  Should have rejected invalid mode''
           counts w)
        (\<lambda>counts w.
      and_then
        (edge_case e (CHR 0x0A # ''3. Missing --alphabet for compression'')
           [''java'', ''LZWTool'', ''--mode'', ''compress'', ''--minW'', ''3'', ''--maxW'', ''4'']
           (Some [])
           (\<lambda>result. returncode result \<noteq> 0)
           ''  Correctly rejected missing alphabet'' ''  Should have rejected missing alphabet''
           counts w)
        (\<lambda>counts w.
      and_then
        (edge_case e (CHR 0x0A # ''4. Non-existent alphabet file'')
           [''java'', ''LZWTool'', ''--mode'', ''compress'', ''--alphabet'', ''nonexistent.txt'',
            ''--minW'', ''3'', ''--maxW'', ''4'']
           (Some ''a'')
           (\<lambda>result. returncode result \<noteq> 0)
           ''  Correctly rejected non-existent alphabet''
           ''  Should have rejected non-existent alphabet''
           counts w)
        (\<lambda>counts w.
      and_then
        (edge_case e (CHR 0x0A # ''5. Invalid minW > maxW'')
           [''java'', ''LZWTool'', ''--mode'', ''compress'', ''--alphabet'', ''alphabets/ab.txt'',
            ''--minW'', ''10'', ''--maxW'', ''5'']
           (Some ''a'')
           (\<lambda>result. returncode result \<noteq> 0)
           ''  Correctly rejected minW > maxW'' ''  Should have rejected minW > maxW''
           counts w)
        (\<lambda>counts w.
      and_then
        (edge_case e (CHR 0x0A # ''6. Unknown argument'')
           [''java'', ''LZWTool'', ''--unknown-arg'', ''value''] None
           (\<lambda>result. returncode result \<noteq> 0 \<and> py_in ''Unknown argument'' (stderr result))
           ''  Correctly rejected unknown argument'' ''  Should have rejected unknown argument''
           counts w)
        (\<lambda>counts w.
      and_then (edge_test_7 e counts w)
        (\<lambda>counts w.
      and_then
        (edge_case e (CHR 0x0A # ''8. Empty input file'')
           [''java'', ''LZWTool'', ''--mode'', ''compress'', ''--alphabet'', ''alphabets/ab.txt'',
            ''--minW'', ''3'', ''--maxW'', ''4'']
           (Some [])
           (\<lambda>result. returncode result = 0)
           ''  Empty input handled correctly'' ''  Empty input should succeed''
           counts w)
        (\<lambda>counts w.
           (Inr (fst counts = snd counts),
            log_test [Str [CHR 0x0A], Str ''Edge Case Tests: '', Num (fst counts), Str ''/'',
                      Num (snd counts), Str '' passed''] w))))))))))"

subsection \<open>test\_real\_files\<close>

fun real_policies ::
  "'g env \<Rightarrow> string \<Rightarrow> string \<Rightarrow> string list \<Rightarrow> 'g world \<Rightarrow> (py_error + bool) \<times> 'g world" where
  "real_policies e filepath content [] w = (Inr True, w)"
| "real_policies e filepath content (policy # rest) w =
     (case compress_expand_test e content ''alphabets/ascii.txt'' 9 16 policy
             (filepath @ ''/'' @ policy) w of
        (Inl ex, w1) \<Rightarrow> (Inl ex, w1)
      | (Inr (success, ratio), w1) \<Rightarrow>
          if success then
            (case ratio of
               None \<Rightarrow> (Inl TypeError, w1)
             | Some r \<Rightarrow>
                 real_policies e filepath content rest
                   (log_pass [Str ''  '', Str (py_upper policy), Str '' - Ratio: '', Flt r] w1))
          else
            (Inr False, log_fail [Str ''  '', Str (py_upper policy), Str '' - FAILED''] w1))"

text \<open>The loop over \<^verbatim>\<open>test_files\<close>; \<open>False\<close> is the early \<^verbatim>\<open>return False\<close>. Each
  file is read in text mode with \<^verbatim>\<open>errors='ignore'\<close>.\<close>

fun real_files ::
  "'g env \<Rightarrow> (string \<times> string) list \<Rightarrow> 'g world \<Rightarrow> (py_error + bool) \<times> 'g world" where
  "real_files e [] w = (Inr True, w)"
| "real_files e ((filepath, description) # rest) w =
     (case fs w filepath of
        None \<Rightarrow> real_files e rest (log_warn [Str ''File not found: '', Str filepath] w)
      | Some raw \<Rightarrow>
          (let w1 = log_test [Str [CHR 0x0A], Str ''Testing '', Str description, Str '': '',
                              Str filepath] w;
               content = universal_newlines (decode_ignore raw);
               w2 = log_test [Str ''  File size: '', Num (int (py_len content)), Str '' bytes'']
                      w1
           in case real_policies e filepath content [''freeze'', ''lru'', ''lfu''] w2 of
                (Inl ex, w3) \<Rightarrow> (Inl ex, w3)
              | (Inr ok, w3) \<Rightarrow> if ok then real_files e rest w3 else (Inr False, w3)))"

definition test_real_files :: "'g env \<Rightarrow> 'g world \<Rightarrow> (py_error + bool) \<times> 'g world" where
  "test_real_files e w =
     real_files e
       [(''TestFiles/code.txt'', ''Text file''), (''TestFiles/medium.txt'', ''Medium text'')]
       (log_test [Str (py_mul ''='' 60)]
          (log_test [Str ''Testing Real Files with ASCII alphabet'']
             (log_test [Str [CHR 0x0A], Str (py_mul ''='' 60)] w)))"

subsection \<open>main\<close>

text \<open>\<^verbatim>\<open>random.seed(42)\<close> replaces the state of the global generator.\<close>

definition random_seed :: "'g env \<Rightarrow> int \<Rightarrow> 'g world \<Rightarrow> 'g world" where
  "random_seed e a w = w\<lparr>rng := seed e a\<rparr>"

definition main_summary :: "bool \<Rightarrow> 'g world \<Rightarrow> (py_error + unit) \<times> 'g world" where
  "main_summary all_passed w =
     (let w1 = py_print [Str [CHR 0x0A], Str (py_mul ''='' 70)] w in
      if all_passed then
        (Inr (),
         py_print [Str (py_mul ''='' 70), Str [CHR 0x0A]]
           (py_print [Str ''  '', Str check_mark, Str '' Edge cases handled properly'']
           (py_print [Str ''  '', Str check_mark, Str '' LRU/LFU policies produce different results'']
           (py_print [Str ''  '', Str check_mark, Str '' Cached bit-shift operations work correctly'']
           (py_print [Str ''  '', Str check_mark, Str '' String caching doesn't affect correctness'']
           (py_print [Str ''  '', Str check_mark, Str '' StringBuilder pooling doesn't break functionality'']
           (py_print [Str ''  '', Str check_mark, Str '' Invalid characters are properly rejected'']
           (py_print [Str ''  '', Str check_mark, Str '' Boolean array alphabet validation works correctly'']
           (py_print [Str [CHR 0x0A], Str ''Optimizations verified:'']
           (py_print [Str check_mark, Str '' ALL TESTS PASSED''] w1))))))))))
      else
        (Inl (SystemExit 1), py_print [Str cross_mark, Str '' SOME TESTS FAILED''] w1))"

definition main :: "'g env \<Rightarrow> 'g world \<Rightarrow> (py_error + unit) \<times> 'g world" where
  "main e w =
     (let w1 = py_print [Str (py_mul ''='' 70), Str [CHR 0x0A]]
                 (py_print [Str ''Testing Optimizations & Edge Cases'']
                    (py_print [Str ''LZWTool Comprehensive Test Suite'']
                       (py_print [Str [CHR 0x0A], Str (py_mul ''='' 70)] w)));
          w2 = random_seed e 42 w1
      in
      and_then (compile_java e w2)
        (\<lambda>u w.
      and_then (test_alphabet_validation e w)
        (\<lambda>validated w.
      and_then (test_edge_cases e w)
        (\<lambda>edges w.
      and_then (test_alphabet_suite e ''ab'' [''a'', ''b''] ''alphabets/ab.txt'' w)
        (\<lambda>suite_ab w.
      and_then (test_alphabet_suite e ''abracadabra'' [''A'', ''B'', ''R'', ''C'', ''D'']
                  ''alphabets/abracadabra.txt'' w)
        (\<lambda>suite_abracadabra w.
      and_then (test_alphabet_suite e ''tobeornot'' [''T'', ''O'', ''B'', ''E'', ''R'', ''N'']
                  ''alphabets/tobeornot.txt'' w)
        (\<lambda>suite_tobeornot w.
      and_then (test_real_files e w)
        (\<lambda>real w.
           main_summary
             (validated = Some True \<and> edges \<and> suite_ab \<and> suite_abracadabra
              \<and> suite_tobeornot \<and> real) w))))))))"

section \<open>test\_lru.py\<close>

subsection \<open>run\_test\<close>

definition javac_argv :: "string list" where
  "javac_argv = [''javac'', ''LZWTool.java'', ''TSTmod.java'', ''BinaryStdIn.java'',
                 ''BinaryStdOut.java'']"

text \<open>The stages of the \<^verbatim>\<open>try\<close> block. The result is the pair
  \<^verbatim>\<open>(success, message)\<close>, the message as the parts of its f-string. The three files
  are named after the test, and each is opened for writing inside the block.\<close>

definition rt_compare ::
  "string \<Rightarrow> string \<Rightarrow> string \<Rightarrow> 'g world \<Rightarrow> (py_error + bool \<times> part list) \<times> 'g world" where
  "rt_compare input_data compressed_file decompressed_file w =
     (case fs w decompressed_file of
        None \<Rightarrow> (Inl (FileNotFoundError decompressed_file), w)
      | Some content \<Rightarrow>
          (case read_text content of
             Inl ex \<Rightarrow> (Inl ex, w)
           | Inr decompressed_data \<Rightarrow>
               if input_data = decompressed_data then
                 (let original_size = int (py_len input_data) in
                  case fs w compressed_file of
                    None \<Rightarrow> (Inl (FileNotFoundError compressed_file), w)
                  | Some c \<Rightarrow>
                      let compressed_size = int (length c)
                      in (case (if original_size > 0
                                then (case py_truediv compressed_size original_size of
                                        Inl ex \<Rightarrow> Inl ex
                                      | Inr q \<Rightarrow> Inr (q * 100))
                                else Inr 0) of
                            Inl ex \<Rightarrow> (Inl ex, w)
                          | Inr ratio \<Rightarrow>
                              (Inr (True, [Str ''Success! Compression ratio: '', Flt ratio,
                                           Str ''%'']), w)))
               else
                 (Inr (False, [Str ''Mismatch! Original length: '',
                               Num (int (py_len input_data)),
                               Str '', Decompressed length: '',
                               Num (int (py_len decompressed_data))]), w)))"

definition rt_expand ::
  "'g env \<Rightarrow> string \<Rightarrow> string \<Rightarrow> string \<Rightarrow> 'g world
     \<Rightarrow> (py_error + bool \<times> part list) \<times> 'g world" where
  "rt_expand e input_data compressed_file decompressed_file w =
     (case fs w compressed_file of
        None \<Rightarrow> (Inl (FileNotFoundError compressed_file), w)
      | Some infile \<Rightarrow>
          (case open_w e decompressed_file of
             Some ex \<Rightarrow> (Inl ex, w)
           | None \<Rightarrow>
               let w1 = write_file decompressed_file [] w in
               (case run e expand_argv (Some infile) of
                  Inl m \<Rightarrow> (Inl (OSError m), w1)
                | Inr decompress_result \<Rightarrow>
                    let w2 = write_file decompressed_file (stdout decompress_result) w1 in
                    if returncode decompress_result \<noteq> 0 then
                      (case py_decode (stderr decompress_result) of
                         Inl ex \<Rightarrow> (Inl ex, w2)
                       | Inr message \<Rightarrow>
                           (Inr (False, [Str ''Decompression failed: '', Str message]), w2))
                    else rt_compare input_data compressed_file decompressed_file w2)))"

definition rt_compress ::
  "'g env \<Rightarrow> string \<Rightarrow> string \<Rightarrow> int \<Rightarrow> int \<Rightarrow> string \<Rightarrow> string \<Rightarrow> string
     \<Rightarrow> 'g world \<Rightarrow> (py_error + bool \<times> part list) \<times> 'g world" where
  "rt_compress e input_data policy minW maxW input_file compressed_file decompressed_file w =
     (case fs w input_file of
        None \<Rightarrow> (Inl (FileNotFoundError input_file), w)
      | Some infile \<Rightarrow>
          (case open_w e compressed_file of
             Some ex \<Rightarrow> (Inl ex, w)
           | None \<Rightarrow>
               let w1 = write_file compressed_file [] w in
               (case run e (compress_argv (py_str minW) (py_str maxW) policy ''alphabet_ab.txt'')
                       (Some infile) of
                  Inl m \<Rightarrow> (Inl (OSError m), w1)
                | Inr compress_result \<Rightarrow>
                    let w2 = write_file compressed_file (stdout compress_result) w1 in
                    if returncode compress_result \<noteq> 0 then
                      (case py_decode (stderr compress_result) of
                         Inl ex \<Rightarrow> (Inl ex, w2)
                       | Inr message \<Rightarrow>
                           (Inr (False, [Str ''Compression failed: '', Str message]), w2))
                    else rt_expand e input_data compressed_file decompressed_file w2)))"

definition rt_body ::
  "'g env \<Rightarrow> string \<Rightarrow> string \<Rightarrow> int \<Rightarrow> int \<Rightarrow> string \<Rightarrow> string \<Rightarrow> string
     \<Rightarrow> 'g world \<Rightarrow> (py_error + bool \<times> part list) \<times> 'g world" where
  "rt_body e input_data policy minW maxW input_file compressed_file decompressed_file w =
     (case open_w e input_file of
        Some ex \<Rightarrow> (Inl ex, w)
      | None \<Rightarrow>
          let w1 = write_file input_file input_data w in
          (case run_text e javac_argv None of
             Inl ex \<Rightarrow> (Inl ex, w1)
           | Inr compile_result \<Rightarrow>
               if returncode compile_result \<noteq> 0 then
                 (Inr (False, [Str ''Compilation failed: '', Str (stderr compile_result)]), w1)
               else rt_compress e input_data policy minW maxW
                      input_file compressed_file decompressed_file w1))"

text \<open>The function: \<^verbatim>\<open>except Exception\<close> turns an exception of the body into a
  failure message, and the \<^verbatim>\<open>finally\<close> block removes the three files.\<close>

definition run_test ::
  "'g env \<Rightarrow> string \<Rightarrow> string \<Rightarrow> string \<Rightarrow> int \<Rightarrow> int \<Rightarrow> 'g world
     \<Rightarrow> (bool \<times> part list) \<times> 'g world" where
  "run_test e test_name input_data policy minW maxW w =
     (let input_file = ''test_input_'' @ test_name @ ''.txt'';
          compressed_file = ''test_compressed_'' @ test_name @ ''.bin'';
          decompressed_file = ''test_decompressed_'' @ test_name @ ''.txt'';
          (res, w1) = rt_body e input_data policy minW maxW
                        input_file compressed_file decompressed_file w;
          result = (case res of
                      Inl ex \<Rightarrow> (False, [Str ''Exception: '', Exc ex])
                    | Inr r \<Rightarrow> r)
      in (result, cleanup [input_file, compressed_file, decompressed_file] w1))"

subsection \<open>generate\_test\_sequences, create\_alphabet\_file, run\_all\_tests\<close>

text \<open>The dictionary literal of \<^verbatim>\<open>test_lru.py\<close>, its values computed in the order
  written; \<^verbatim>\<open>random.choice("ab")\<close> picks one of the two characters.\<close>

definition generate_test_sequences_lru :: "'g env \<Rightarrow> 'g \<Rightarrow> (string \<times> string) list \<times> 'g" where
  "generate_test_sequences_lru e g =
     (let (random_short, g1) = random_join e [''a'', ''b''] 20 g;
          (random_medium, g2) = random_join e [''a'', ''b''] 100 g1;
          (random_long, g3) = random_join e [''a'', ''b''] 500 g2;
          (very_long, g4) = random_join e [''a'', ''b''] 1000 g3;
          (stress_test, g5) = random_join e [''a'', ''b''] 2000 g4
      in ([(''empty'', []),
           (''single_a'', ''a''),
           (''single_b'', ''b''),
           (''alternating_ab'', py_mul ''ab'' 50),
           (''aaaaabbbbbb'', ''aaaaabbbbbb''),
           (''all_a'', py_mul ''a'' 50),
           (''all_b'', py_mul ''b'' 50),
           (''random_short'', random_short),
           (''random_medium'', random_medium),
           (''repeating_pattern'', py_mul ''aababb'' 10),
           (''mixed_pattern'', py_mul ''abbaaaabbbbaa'' 5),
           (''long_run_a_63'', py_mul ''a'' 63),
           (''long_run_b_64'', py_mul ''b'' 64),
           (''alternating_3a3b'', py_mul (''aaa'' @ ''bbb'') 20),
           (''pattern_abbbbaaa'', py_mul ''abbbbaaa'' 15),
           (''random_long'', random_long),
           (''pattern_cross_boundary'', py_mul ''a'' 7 @ py_mul ''b'' 9 @ py_mul ''a'' 15),
           (''sequence_edge_case'', py_mul ''a'' 3 @ py_mul ''b'' 3 @ py_mul ''a'' 4 @ py_mul ''b'' 5),
           (''very_long'', very_long),
           (''repeating_ab_pattern'', py_mul ''ababab'' 50),
           (''complex_pattern'', py_mul ''aabbaabbaabb'' 20),
           (''stress_test'', stress_test)], g5))"

definition create_alphabet_file :: "'g world \<Rightarrow> 'g world" where
  "create_alphabet_file w =
     write_file ''alphabet_ab.txt'' (''a'' @ [CHR 0x0A] @ ''b'' @ [CHR 0x0A]) w"

text \<open>The loop of \<^verbatim>\<open>run_all_tests\<close>; the pair is \<^verbatim>\<open>(passed, failed)\<close>. Every test
  runs with the defaults of \<^verbatim>\<open>run_test\<close>: policy \<^verbatim>\<open>lru\<close>, widths 9 and 12.\<close>

fun run_cases ::
  "'g env \<Rightarrow> (string \<times> string) list \<Rightarrow> int \<times> int \<Rightarrow> 'g world \<Rightarrow> (int \<times> int) \<times> 'g world" where
  "run_cases e [] counts w = (counts, w)"
| "run_cases e ((test_name, input_data) # rest) counts w =
     (let w1 = py_print [Str [CHR 0x0A], Str ''Testing: '', Str test_name, Str '' (length: '',
                         Num (int (py_len input_data)), Str '')''] w;
          (result, w2) = run_test e test_name input_data ''lru'' 9 12 w1
      in if fst result
         then run_cases e rest (fst counts + 1, snd counts)
                (py_print (Str ''  '' # Str check_mark # Str '' '' # snd result) w2)
         else run_cases e rest (fst counts, snd counts + 1)
                (py_print (Str ''  '' # Str cross_mark # Str '' '' # snd result) w2))"

definition run_all_tests :: "'g env \<Rightarrow> 'g world \<Rightarrow> bool \<times> 'g world" where
  "run_all_tests e w =
     (let w1 = py_print [Str (py_mul ''='' 70)]
                 (py_print [Str ''LRU Policy Test Suite for LZW Compression'']
                    (py_print [Str (py_mul ''='' 70)] w));
          w2 = create_alphabet_file w1;
          (test_cases, g) = generate_test_sequences_lru e (rng w2);
          (counts, w3) = run_cases e test_cases (0, 0) (w2\<lparr>rng := g\<rparr>);
          w4 = py_print [Str (py_mul ''='' 70)]
                 (py_print [Str ''Test Results: '', Num (fst counts), Str '' passed, '',
                            Num (snd counts), Str '' failed out of '',
                            Num (fst counts + snd counts), Str '' total'']
                    (py_print [Str [CHR 0x0A], Str (py_mul ''='' 70)] w3))
      in (snd counts = 0, cleanup [''alphabet_ab.txt''] w4))"

section \<open>test\_all\_policies.py\<close>

subsection \<open>test\_policy\<close>

definition tp_compare ::
  "string \<Rightarrow> string \<Rightarrow> string \<Rightarrow> 'g world \<Rightarrow> (py_error + bool \<times> part list) \<times> 'g world" where
  "tp_compare input_data compressed_file decompressed_file w =
     (case fs w decompressed_file of
        None \<Rightarrow> (Inl (FileNotFoundError decompressed_file), w)
      | Some content \<Rightarrow>
          (case read_text content of
             Inl ex \<Rightarrow> (Inl ex, w)
           | Inr decompressed_data \<Rightarrow>
               if input_data = decompressed_data then
                 (case fs w compressed_file of
                    None \<Rightarrow> (Inl (FileNotFoundError compressed_file), w)
                  | Some c \<Rightarrow>
                      let compressed_size = int (length c)
                      in (case (if int (py_len input_data) > 0
                                then (case py_truediv compressed_size (int (py_len input_data)) of
                                        Inl ex \<Rightarrow> Inl ex
                                      | Inr q \<Rightarrow> Inr (q * 100))
                                else Inr 0) of
                            Inl ex \<Rightarrow> (Inl ex, w)
                          | Inr ratio \<Rightarrow>
                              (Inr (True, [Str ''Success! Compression ratio: '', Flt ratio,
                                           Str ''%'']), w)))
               else
                 (Inr (False, [Str ''Mismatch! Original: '',
                               Num (int (py_len input_data)),
                               Str '', Decompressed: '',
                               Num (int (py_len decompressed_data))]), w)))"

definition tp_expand ::
  "'g env \<Rightarrow> string \<Rightarrow> string \<Rightarrow> string \<Rightarrow> 'g world
     \<Rightarrow> (py_error + bool \<times> part list) \<times> 'g world" where
  "tp_expand e input_data compressed_file decompressed_file w =
     (case fs w compressed_file of
        None \<Rightarrow> (Inl (FileNotFoundError compressed_file), w)
      | Some infile \<Rightarrow>
          (case open_w e decompressed_file of
             Some ex \<Rightarrow> (Inl ex, w)
           | None \<Rightarrow>
               let w1 = write_file decompressed_file [] w in
               (case run e expand_argv (Some infile) of
                  Inl m \<Rightarrow> (Inl (OSError m), w1)
                | Inr decompress_result \<Rightarrow>
                    let w2 = write_file decompressed_file (stdout decompress_result) w1 in
                    if returncode decompress_result \<noteq> 0 then
                      (case py_decode (stderr decompress_result) of
                         Inl ex \<Rightarrow> (Inl ex, w2)
                       | Inr message \<Rightarrow>
                           (Inr (False, [Str ''Decompression failed: '', Str message]), w2))
                    else tp_compare input_data compressed_file decompressed_file w2)))"

definition tp_compress ::
  "'g env \<Rightarrow> string \<Rightarrow> string \<Rightarrow> string \<Rightarrow> string \<Rightarrow> string
     \<Rightarrow> 'g world \<Rightarrow> (py_error + bool \<times> part list) \<times> 'g world" where
  "tp_compress e policy_name input_data input_file compressed_file decompressed_file w =
     (case fs w input_file of
        None \<Rightarrow> (Inl (FileNotFoundError input_file), w)
      | Some infile \<Rightarrow>
          (case open_w e compressed_file of
             Some ex \<Rightarrow> (Inl ex, w)
           | None \<Rightarrow>
               let w1 = write_file compressed_file [] w in
               (case run e (compress_argv ''9'' ''12'' policy_name ''alphabet_ab.txt'')
                       (Some infile) of
                  Inl m \<Rightarrow> (Inl (OSError m), w1)
                | Inr compress_result \<Rightarrow>
                    let w2 = write_file compressed_file (stdout compress_result) w1 in
                    if returncode compress_result \<noteq> 0 then
                      (case py_decode (stderr compress_result) of
                         Inl ex \<Rightarrow> (Inl ex, w2)
                       | Inr message \<Rightarrow>
                           (Inr (False, [Str ''Compression failed: '', Str message]), w2))
                    else tp_expand e input_data compressed_file decompressed_file w2)))"

definition tp_body ::
  "'g env \<Rightarrow> string \<Rightarrow> string \<Rightarrow> string \<Rightarrow> string \<Rightarrow> string
     \<Rightarrow> 'g world \<Rightarrow> (py_error + bool \<times> part list) \<times> 'g world" where
  "tp_body e policy_name input_data input_file compressed_file decompressed_file w =
     (case open_w e input_file of
        Some ex \<Rightarrow> (Inl ex, w)
      | None \<Rightarrow>
          let w1 = write_file input_file input_data w in
          (case run_text e javac_argv None of
             Inl ex \<Rightarrow> (Inl ex, w1)
           | Inr compile_result \<Rightarrow>
               if returncode compile_result \<noteq> 0 then
                 (Inr (False, [Str ''Compilation failed: '', Str (stderr compile_result)]), w1)
               else tp_compress e policy_name input_data
                      input_file compressed_file decompressed_file w1))"

definition test_policy ::
  "'g env \<Rightarrow> string \<Rightarrow> string \<Rightarrow> 'g world \<Rightarrow> (bool \<times> part list) \<times> 'g world" where
  "test_policy e policy_name input_data w =
     (let input_file = ''test_'' @ policy_name @ ''_input.txt'';
          compressed_file = ''test_'' @ policy_name @ ''_compressed.bin'';
          decompressed_file = ''test_'' @ policy_name @ ''_decompressed.txt'';
          (res, w1) = tp_body e policy_name input_data
                        input_file compressed_file decompressed_file w;
          result = (case res of
                      Inl ex \<Rightarrow> (False, [Str ''Exception: '', Exc ex])
                    | Inr r \<Rightarrow> r)
      in (result, cleanup [input_file, compressed_file, decompressed_file] w1))"

text \<open>The default argument of \<^verbatim>\<open>test_policy\<close>: \<^verbatim>\<open>"aabbaabbaabb" * 20\<close>.\<close>

definition test_policy_default_input :: string where
  "test_policy_default_input = py_mul ''aabbaabbaabb'' 20"

subsection \<open>main\<close>

text \<open>The loop over \<^verbatim>\<open>["freeze", "reset", "lru"]\<close>; \<^verbatim>\<open>results\<close> as the list of
  its items.\<close>

fun test_policies ::
  "'g env \<Rightarrow> string list \<Rightarrow> (string \<times> bool) list \<Rightarrow> 'g world
     \<Rightarrow> (string \<times> bool) list \<times> 'g world" where
  "test_policies e [] results w = (results, w)"
| "test_policies e (policy # rest) results w =
     (let w1 = py_print [Str [CHR 0x0A], Str ''Testing policy: '', Str policy] w;
          (result, w2) = test_policy e policy test_policy_default_input w1
      in test_policies e rest (results @ [(policy, fst result)])
           (py_print (Str ''  '' # Str (if fst result then check_mark else cross_mark)
                        # Str '' '' # snd result) w2))"

definition main_all_policies :: "'g env \<Rightarrow> 'g world \<Rightarrow> bool \<times> 'g world" where
  "main_all_policies e w =
     (let w1 = py_print [Str (py_mul ''='' 70)]
                 (py_print [Str ''Testing All Policies''] (py_print [Str (py_mul ''='' 70)] w));
          w2 = create_alphabet_file w1;
          (results, w3) = test_policies e [''freeze'', ''reset'', ''lru''] [] w2;
          w4 = cleanup [''alphabet_ab.txt''] w3;
          w5 = py_print [Str ''Summary:''] (py_print [Str [CHR 0x0A], Str (py_mul ''='' 70)] w4);
          w6 = foldl (\<lambda>w (policy, success).
                        py_print [Str ''  '', Str policy, Str '': '',
                                  Str (if success then check_mark @ '' PASSED''
                                       else cross_mark @ '' FAILED'')] w)
                 w5 results
      in (list_all snd results, py_print [Str (py_mul ''='' 70)] w6))"

section \<open>verify\_policies\_differ.py\<close>

subsection \<open>compress\_test\<close>

text \<open>The result is the size of the compressed file, or \<^verbatim>\<open>None\<close> when the tool
  exits nonzero; the message printed then decodes the error stream.\<close>

definition ct_body ::
  "'g env \<Rightarrow> string \<Rightarrow> int \<Rightarrow> int \<Rightarrow> string \<Rightarrow> string \<Rightarrow> string \<Rightarrow> 'g world
     \<Rightarrow> (py_error + int option) \<times> 'g world" where
  "ct_body e alphabet_path minW maxW policy input_file compressed_file w =
     (case fs w input_file of
        None \<Rightarrow> (Inl (FileNotFoundError input_file), w)
      | Some infile \<Rightarrow>
          let w1 = write_file compressed_file [] w in
          (case run e (compress_argv (py_str minW) (py_str maxW) policy alphabet_path)
                  (Some infile) of
             Inl m \<Rightarrow> (Inl (OSError m), w1)
           | Inr result \<Rightarrow>
               let w2 = write_file compressed_file (stdout result) w1 in
               if returncode result \<noteq> 0 then
                 (case py_decode (stderr result) of
                    Inl ex \<Rightarrow> (Inl ex, w2)
                  | Inr message \<Rightarrow>
                      (Inr None,
                       py_print [Str ''Compression failed for '', Str policy, Str '': '',
                                 Str message] w2))
               else
                 (case fs w2 compressed_file of
                    None \<Rightarrow> (Inl (FileNotFoundError compressed_file), w2)
                  | Some c \<Rightarrow> (Inr (Some (int (length c))), w2))))"

definition compress_test ::
  "'g env \<Rightarrow> string \<Rightarrow> string \<Rightarrow> int \<Rightarrow> int \<Rightarrow> string \<Rightarrow> 'g world
     \<Rightarrow> (py_error + int option) \<times> 'g world" where
  "compress_test e input_data alphabet_path minW maxW policy w =
     (let input_file = mktemp e (fs w) ''.txt'';
          w1 = write_file input_file input_data w;
          compressed_file = input_file @ ''.lzw'';
          (res, w2) = ct_body e alphabet_path minW maxW policy input_file compressed_file w1
      in (res, cleanup [input_file, compressed_file] w2))"

subsection \<open>The script\<close>

text \<open>Float division, raising on a zero divisor; the quotient is kept exact.\<close>

definition py_fdiv :: "rat \<Rightarrow> rat \<Rightarrow> py_error + rat" where
  "py_fdiv a b = (if b = 0 then Inl ZeroDivisionError else Inr (a / b))"

text \<open>
  The loop \<^verbatim>\<open>for policy in policies\<close> of one configuration. \<^verbatim>\<open>results\<close> is the list
  of the items \<^verbatim>\<open>policy: {"size": size, "ratio": ratio}\<close>; a policy whose size is
  \<^verbatim>\<open>None\<close> or 0 gets no item.
\<close>

fun measure_policies ::
  "'g env \<Rightarrow> string \<Rightarrow> string \<Rightarrow> int \<Rightarrow> int \<Rightarrow> int \<Rightarrow> string list
     \<Rightarrow> (string \<times> int \<times> rat) list \<Rightarrow> 'g world
     \<Rightarrow> (py_error + (string \<times> int \<times> rat) list) \<times> 'g world" where
  "measure_policies e random_data alphabet_file minW maxW len [] results w = (Inr results, w)"
| "measure_policies e random_data alphabet_file minW maxW len (policy # rest) results w =
     (case compress_test e random_data alphabet_file minW maxW policy w of
        (Inl ex, w1) \<Rightarrow> (Inl ex, w1)
      | (Inr compressed_size, w1) \<Rightarrow>
          (case compressed_size of
             None \<Rightarrow> measure_policies e random_data alphabet_file minW maxW len rest results w1
           | Some sz \<Rightarrow>
               if sz = 0 then
                 measure_policies e random_data alphabet_file minW maxW len rest results w1
               else
                 (case py_truediv sz len of
                    Inl ex \<Rightarrow> (Inl ex, w1)
                  | Inr ratio \<Rightarrow>
                      measure_policies e random_data alphabet_file minW maxW len rest
                        (results @ [(policy, sz, ratio)])
                        (py_print [Str ''  '', Str (py_upper policy), Str '': '', Num sz,
                                   Str '' bytes, ratio: '', Flt ratio] w1))))"

text \<open>The comparison of the ratios: one line when the four differ, otherwise a line
  and the pairs \<^verbatim>\<open>p1 < p2\<close> with equal ratios. Nothing but printing follows from it.\<close>

definition report_same ::
  "(string \<times> int \<times> rat) list \<Rightarrow> 'g world \<Rightarrow> 'g world" where
  "report_same results w =
     (let ratios = map (\<lambda>p. snd (the (map_of results p)))
                     (filter (\<lambda>p. map_of results p \<noteq> None) policies)
      in if length (remdups ratios) = 4 then
           py_print [Str ''  '', Str check_mark, Str '' ALL 4 POLICIES PRODUCE DIFFERENT RESULTS''] w
         else
           foldl (\<lambda>w (p1, p2). py_print [Str ''    '', Str p1, Str '' == '', Str p2] w)
             (py_print [Str ''  '', Str cross_mark, Str '' Some policies produce the same results:''] w)
             (filter (\<lambda>(p1, p2).
                        str_less p1 p2 \<and> map_of results p1 \<noteq> None \<and> map_of results p2 \<noteq> None
                        \<and> snd (the (map_of results p1)) = snd (the (map_of results p2)))
                (concat (map (\<lambda>p1. map (\<lambda>p2. (p1, p2)) policies) policies))))"

text \<open>The differences from \<^verbatim>\<open>freeze\<close>: \<^verbatim>\<open>pct = (diff / freeze_ratio) * 100\<close>.\<close>

fun report_differences ::
  "(string \<times> int \<times> rat) list \<Rightarrow> rat \<Rightarrow> string list \<Rightarrow> 'g world
     \<Rightarrow> (py_error + unit) \<times> 'g world" where
  "report_differences results freeze_ratio [] w = (Inr (), w)"
| "report_differences results freeze_ratio (policy # rest) w =
     (case map_of results policy of
        None \<Rightarrow> report_differences results freeze_ratio rest w
      | Some entry \<Rightarrow>
          (let diff = snd entry - freeze_ratio in
           case py_fdiv diff freeze_ratio of
             Inl ex \<Rightarrow> (Inl ex, w)
           | Inr q \<Rightarrow>
               report_differences results freeze_ratio rest
                 (py_print [Str ''    '', Str (py_upper policy), Str '': '',
                            Str (if diff > 0 then ''+'' else []), Flt diff, Str '' ('',
                            Str (if diff > 0 then ''+'' else []), Flt (q * 100), Str ''%)''] w)))"

text \<open>One configuration \<^verbatim>\<open>(name, chars, alphabet_file, minW, maxW, length)\<close>.\<close>

definition verify_config ::
  "'g env \<Rightarrow> string \<times> string list \<times> string \<times> int \<times> int \<times> nat \<Rightarrow> 'g world
     \<Rightarrow> (py_error + unit) \<times> 'g world" where
  "verify_config e config w =
     (case config of (name, chars, alphabet_file, minW, maxW, len) \<Rightarrow>
        let w1 = py_print [Str (py_mul ''-'' 80)]
                   (py_print [Str ''minW='', Num minW, Str '', maxW='', Num maxW]
                      (py_print [Str [CHR 0x0A], Str ''Alphabet: '', Str name, Str '' ('',
                                 Num (int (length chars)), Str '' chars) - '', Num (int len),
                                 Str '' random characters''] w));
            (random_data, g) = random_join e chars len (rng w1)
        in case measure_policies e random_data alphabet_file minW maxW (int len) policies []
                  (w1\<lparr>rng := g\<rparr>) of
             (Inl ex, w2) \<Rightarrow> (Inl ex, w2)
           | (Inr results, w2) \<Rightarrow>
               let w3 = report_same results (py_print [] w2) in
               (case map_of results ''freeze'' of
                  None \<Rightarrow> (Inr (), py_print [Str (py_mul ''='' 80)] w3)
                | Some entry \<Rightarrow>
                    (case report_differences results (snd entry) [''reset'', ''lru'', ''lfu'']
                            (py_print [Str [CHR 0x0A], Str ''  Differences from FREEZE:''] w3) of
                       (Inl ex, w4) \<Rightarrow> (Inl ex, w4)
                     | (Inr u, w4) \<Rightarrow> (Inr (), py_print [Str (py_mul ''='' 80)] w4))))"

definition test_configs :: "(string \<times> string list \<times> string \<times> int \<times> int \<times> nat) list" where
  "test_configs =
     [(''ab'', [''a'', ''b''], ''alphabets/ab.txt'', 2, 4, 10000),
      (''abracadabra'', [''A'', ''B'', ''R'', ''C'', ''D''], ''alphabets/abracadabra.txt'', 3, 5, 10000),
      (''tobeornot'', [''T'', ''O'', ''B'', ''E'', ''R'', ''N''], ''alphabets/tobeornot.txt'', 3, 5,
       10000)]"

fun verify_configs ::
  "'g env \<Rightarrow> (string \<times> string list \<times> string \<times> int \<times> int \<times> nat) list \<Rightarrow> 'g world
     \<Rightarrow> (py_error + unit) \<times> 'g world" where
  "verify_configs e [] w = (Inr (), w)"
| "verify_configs e (config # rest) w =
     (case verify_config e config w of
        (Inl ex, w1) \<Rightarrow> (Inl ex, w1)
      | (Inr u, w1) \<Rightarrow> verify_configs e rest w1)"

text \<open>The module's top-level statements, in order.\<close>

definition verify_script :: "'g env \<Rightarrow> 'g world \<Rightarrow> (py_error + unit) \<times> 'g world" where
  "verify_script e w =
     (let w1 = py_print [Str ''Verifying all 4 policies differ on very large random tests'',
                         Str [CHR 0x0A]] w;
          w2 = random_seed e 42 w1;
          w3 = py_print [Str (py_mul ''='' 80)] w2
      in case verify_configs e test_configs w3 of
           (Inl ex, w4) \<Rightarrow> (Inl ex, w4)
         | (Inr u, w4) \<Rightarrow> (Inr (), py_print [Str [CHR 0x0A], Str ''Done!''] w4))"

section \<open>The round trip, in the spec's words\<close>

text \<open>
  The spec states the round trip as \<open>expand(compress(s)) == s\<close>, where a run that fails
  exits nonzero and produces no stream. \<open>tool_compress\<close> is the stream a compress run
  writes when it exits 0, \<open>tool_expand\<close> the text the drivers read from the file an
  expand run writes when it exits 0 (\<open>None\<close> also when the bytes are not UTF-8), and
  \<open>expand_compress\<close> their composition; \<open>None\<close> is a failed run. \<open>compiles\<close>
  says that the \<^verbatim>\<open>javac\<close> call of \<^verbatim>\<open>run_test\<close> and \<^verbatim>\<open>test_policy\<close> returns and
  exits 0.
\<close>

definition tool_compress :: "'g env \<Rightarrow> string list \<Rightarrow> string \<Rightarrow> string option" where
  "tool_compress e argv s =
     (case run e argv (Some s) of
        Inl m \<Rightarrow> None
      | Inr r \<Rightarrow> if returncode r = 0 then Some (stdout r) else None)"

definition tool_expand :: "'g env \<Rightarrow> string \<Rightarrow> string option" where
  "tool_expand e c =
     (case run e expand_argv (Some c) of
        Inl m \<Rightarrow> None
      | Inr r \<Rightarrow>
          if returncode r = 0
          then (case read_text (stdout r) of Inl ex \<Rightarrow> None | Inr t \<Rightarrow> Some t)
          else None)"

definition expand_compress :: "'g env \<Rightarrow> string list \<Rightarrow> string \<Rightarrow> string option" where
  "expand_compress e argv s =
     (case tool_compress e argv s of None \<Rightarrow> None | Some c \<Rightarrow> tool_expand e c)"

definition compiles :: "'g env \<Rightarrow> bool" where
  "compiles e =
     (case run_text e javac_argv None of Inl ex \<Rightarrow> False | Inr r \<Rightarrow> returncode r = 0)"

text \<open>A call of \<^verbatim>\<open>compress_expand_test\<close> passed: it returned, and its first
  component is \<^verbatim>\<open>True\<close>.\<close>

definition passed :: "py_error + bool \<times> 'a \<Rightarrow> bool" where
  "passed r = (case r of Inl ex \<Rightarrow> False | Inr v \<Rightarrow> fst v)"



text \<open>
  The exception that stops a driver when it runs the tool with \<^verbatim>\<open>text=False\<close> on an
  input and decodes the error stream of a run that exits nonzero: \<^verbatim>\<open>OSError\<close> when
  the tool cannot be started, \<^verbatim>\<open>UnicodeDecodeError\<close> when that stream is not UTF-8.
\<close>

definition run_failure :: "'g env \<Rightarrow> string list \<Rightarrow> string \<Rightarrow> py_error option" where
  "run_failure e argv input_bytes =
     (case run e argv (Some input_bytes) of
        Inl m \<Rightarrow> Some (OSError m)
      | Inr r \<Rightarrow>
          if returncode r \<noteq> 0
          then (case py_decode (stderr r) of Inl ex \<Rightarrow> Some ex | Inr message \<Rightarrow> None)
          else None)"


text \<open>
  A name without \<^verbatim>\<open>/\<close> and without the null character: the files \<^verbatim>\<open>run_test\<close> and
  \<^verbatim>\<open>test_policy\<close> build from it are in the working directory. \<open>can_write\<close> says that
  each path of a list can be opened for writing.
\<close>

definition plain_name :: "string \<Rightarrow> bool" where
  "plain_name n = (CHR ''/'' \<notin> set n \<and> CHR 0x00 \<notin> set n)"

definition can_write :: "'g env \<Rightarrow> string list \<Rightarrow> bool" where
  "can_write e paths = list_all (\<lambda>path. open_w e path = None) paths"

definition lru_files :: "string \<Rightarrow> string list" where
  "lru_files test_name =
     [''test_input_'' @ test_name @ ''.txt'', ''test_compressed_'' @ test_name @ ''.bin'',
      ''test_decompressed_'' @ test_name @ ''.txt'']"

definition policy_files :: "string \<Rightarrow> string list" where
  "policy_files policy_name =
     [''test_'' @ policy_name @ ''_input.txt'', ''test_'' @ policy_name @ ''_compressed.bin'',
      ''test_'' @ policy_name @ ''_decompressed.txt'']"

text \<open>Text of ASCII characters without a carriage return: its bytes are read back
  unchanged in text mode, and its length is the number of its bytes.\<close>

definition plain_text :: "string \<Rightarrow> bool" where
  "plain_text s = list_all (\<lambda>c. (of_char c :: nat) < 0x80 \<and> c \<noteq> CHR 0x0D) s"

text \<open>A test case of \<^verbatim>\<open>run_all_tests\<close> passes: \<^verbatim>\<open>javac\<close> exits 0 and the input
  survives the round trip under \<^verbatim>\<open>lru\<close> with the widths 9 and 12.\<close>

definition lru_case_passes :: "'g env \<Rightarrow> string \<Rightarrow> bool" where
  "lru_case_passes e s =
     (compiles e \<and>
      expand_compress e (compress_argv (py_str 9) (py_str 12) ''lru'' ''alphabet_ab.txt'') s
        = Some s)"


section \<open>What run\_test and test\_policy compute\<close>

text \<open>
  The result of the \<^verbatim>\<open>try\<close> block of \<^verbatim>\<open>run_test\<close> and of \<^verbatim>\<open>test_policy\<close>, as a
  function of the environment, the input and the three paths, with the file system
  worked out: stage by stage, the comparison of the text read back, the expand run, the
  compress run, and the \<^verbatim>\<open>javac\<close> call after the input file is opened. The two
  functions differ in the command line and in the words of the mismatch message.
  \<open>percent\<close> is the ratio either reports. A \<open>stage\<close> opens its output file, runs the
  tool on an input and, when the tool exits 0, goes on with the completed process.
\<close>

definition percent :: "string \<Rightarrow> string \<Rightarrow> rat" where
  "percent compressed s =
     (if py_len s = 0 then 0
      else of_int (int (length compressed)) / of_int (int (py_len s)) * 100)"

definition compare_outcome ::
  "string \<Rightarrow> string \<Rightarrow> string \<Rightarrow> string \<Rightarrow> string \<Rightarrow> py_error + bool \<times> part list" where
  "compare_outcome original_is decompressed_is s compressed content =
     (case read_text content of
        Inl ex \<Rightarrow> Inl ex
      | Inr t \<Rightarrow>
          if s = t
          then Inr (True, [Str ''Success! Compression ratio: '', Flt (percent compressed s),
                           Str ''%''])
          else Inr (False, [Str original_is, Num (int (py_len s)), Str decompressed_is,
                            Num (int (py_len t))]))"

definition stage ::
  "'g env \<Rightarrow> string \<Rightarrow> string list \<Rightarrow> string \<Rightarrow> string
     \<Rightarrow> (completed_process \<Rightarrow> py_error + bool \<times> part list)
     \<Rightarrow> py_error + bool \<times> part list" where
  "stage e output_file argv input_bytes failed_with continue =
     (case open_w e output_file of
        Some ex \<Rightarrow> Inl ex
      | None \<Rightarrow>
          (case run e argv (Some input_bytes) of
             Inl m \<Rightarrow> Inl (OSError m)
           | Inr r \<Rightarrow>
               if returncode r \<noteq> 0
               then (case py_decode (stderr r) of
                       Inl ex \<Rightarrow> Inl ex
                     | Inr message \<Rightarrow> Inr (False, [Str failed_with, Str message]))
               else continue r))"

definition expand_outcome ::
  "'g env \<Rightarrow> string \<Rightarrow> string \<Rightarrow> string \<Rightarrow> string \<Rightarrow> string
     \<Rightarrow> py_error + bool \<times> part list" where
  "expand_outcome e original_is decompressed_is s compressed decompressed_file =
     stage e decompressed_file expand_argv compressed ''Decompression failed: ''
       (\<lambda>r. compare_outcome original_is decompressed_is s compressed (stdout r))"

definition compress_outcome ::
  "'g env \<Rightarrow> string \<Rightarrow> string \<Rightarrow> string list \<Rightarrow> string \<Rightarrow> string \<Rightarrow> string
     \<Rightarrow> py_error + bool \<times> part list" where
  "compress_outcome e original_is decompressed_is argv s compressed_file decompressed_file =
     stage e compressed_file argv s ''Compression failed: ''
       (\<lambda>r. expand_outcome e original_is decompressed_is s (stdout r) decompressed_file)"

definition body_outcome ::
  "'g env \<Rightarrow> string \<Rightarrow> string \<Rightarrow> string list \<Rightarrow> string \<Rightarrow> string \<Rightarrow> string \<Rightarrow> string
     \<Rightarrow> py_error + bool \<times> part list" where
  "body_outcome e original_is decompressed_is argv s input_file compressed_file
       decompressed_file =
     (case open_w e input_file of
        Some ex \<Rightarrow> Inl ex
      | None \<Rightarrow>
          (case run_text e javac_argv None of
             Inl ex \<Rightarrow> Inl ex
           | Inr r \<Rightarrow>
               if returncode r \<noteq> 0
               then Inr (False, [Str ''Compilation failed: '', Str (stderr r)])
               else compress_outcome e original_is decompressed_is argv s compressed_file
                      decompressed_file))"

text \<open>What \<^verbatim>\<open>except Exception\<close> makes of the result of the block.\<close>

definition caught :: "py_error + bool \<times> part list \<Rightarrow> bool \<times> part list" where
  "caught res = (case res of Inl ex \<Rightarrow> (False, [Str ''Exception: '', Exc ex]) | Inr r \<Rightarrow> r)"

section \<open>What a passing suite computes\<close>








section \<open>A concrete environment\<close>

text \<open>
  An environment to run the drivers in: every child process exits 0 and copies its
  standard input to its standard output, temporary files are named \<open>/tmp/tmp0\<close> with
  the suffix asked for, the generator counts upwards from its seed, and \<open>/tmp\<close> is the
  only directory besides the working directory.
\<close>

definition copy_env :: "nat env" where
  "copy_env =
     \<lparr>run = (\<lambda>argv stdin.
               Inr \<lparr>returncode = 0,
                    stdout = (case stdin of None \<Rightarrow> [] | Some s \<Rightarrow> s),
                    stderr = []\<rparr>),
      mktemp = (\<lambda>files suffix. ''/tmp/tmp0'' @ suffix),
      randbelow = (\<lambda>g n. (g mod n, Suc g)),
      seed = (\<lambda>i. nat i),
      isdir = (\<lambda>path. path = ''/tmp'')\<rparr>"

definition empty_world :: "nat world" where
  "empty_world = \<lparr>fs = Map.empty, printed = [], rng = 0\<rparr>"




text \<open>
  A fourth environment: every child process exits 1 and writes the single byte
  \<^verbatim>\<open>FF\<close>, which is not UTF-8, to its error stream.
\<close>

definition garbled_env :: "nat env" where
  "garbled_env =
     copy_env\<lparr>run := (\<lambda>argv stdin.
        Inr \<lparr>returncode = 1, stdout = [], stderr = [CHR 0xFF]\<rparr>)\<rparr>"

section \<open>The encoder of LZWTool, in the spec's words\<close>

text \<open>
  Modelled from the spec: the four kinds of error of section 7. \<open>SymbolNotInAlphabet\<close>
  carries the offending symbol, which its message must identify.
\<close>

datatype tool_error =
    ArgumentError string
  | AlphabetLoadError string
  | SymbolNotInAlphabet char
  | CorruptStreamError string

text \<open>
  Modelled from the spec: \<open>codeOf\<close> of the AlphabetTable (section 4.1). The alphabet is
  the ordered list of symbols, the code of a symbol is its position (section 3), and
  \<open>None\<close> is \<open>NotInAlphabet\<close>.
\<close>

fun codeOf :: "string \<Rightarrow> char \<Rightarrow> nat option" where
  "codeOf [] symbol = None"
| "codeOf (x # alphabet) symbol =
     (if x = symbol then Some 0 else map_option Suc (codeOf alphabet symbol))"

text \<open>
  Modelled from the spec: what the encoder asks of the Codebook (section 4.3), over any
  representation \<open>'cb\<close> of it: whether a sequence of symbol codes resolves to a known
  code, the code of a known sequence, \<open>insert\<close> (the marker codewords the eviction
  policy emits first, and the Codebook afterwards), and the EOF marker.
\<close>

record 'cb codebook =
  known :: "'cb \<Rightarrow> nat list \<Rightarrow> bool"
  code_of_sequence :: "'cb \<Rightarrow> nat list \<Rightarrow> nat"
  insert_entry :: "'cb \<Rightarrow> nat list \<Rightarrow> nat list \<times> 'cb"
  eof_marker :: "'cb \<Rightarrow> nat"

text \<open>
  Modelled from the spec: the state machine of the encoder (section 4.5) over the
  pending-match buffer and the codewords emitted so far. A symbol that has no code is
  fatal and the entire run is aborted (section 4.1). Otherwise the symbol is
  accumulated; when the buffer no longer resolves, the code of the buffer minus its
  last symbol is emitted, the full buffer is inserted, and the buffer restarts at the
  unmatched symbol. At the end of the input the buffer is flushed and the EOF marker
  emitted.
\<close>

fun encode ::
  "'cb codebook \<Rightarrow> string \<Rightarrow> 'cb \<Rightarrow> nat list \<Rightarrow> nat list \<Rightarrow> string
     \<Rightarrow> tool_error + nat list" where
  "encode cbk alphabet cb buffer emitted [] =
     Inr (emitted @ (if buffer = [] then [] else [code_of_sequence cbk cb buffer])
            @ [eof_marker cbk cb])"
| "encode cbk alphabet cb buffer emitted (symbol # rest) =
     (case codeOf alphabet symbol of
        None \<Rightarrow> Inl (SymbolNotInAlphabet symbol)
      | Some c \<Rightarrow>
          if known cbk cb (buffer @ [c])
          then encode cbk alphabet cb (buffer @ [c]) emitted rest
          else let (markers, cb') = insert_entry cbk cb (buffer @ [c])
               in encode cbk alphabet cb' [c]
                    (emitted @ [code_of_sequence cbk cb buffer] @ markers) rest)"

text \<open>
  Modelled from the spec: the exit behaviour of a run (section 6). On success the exit
  status is 0 and the standard output carries the stream; on an error the exit status is
  not 0, the diagnostic goes to the error channel, and no stream is output as
  successful (section 7).
\<close>

record tool_result =
  exit_status :: int
  output_stream :: "nat list option"
  diagnostic :: "tool_error option"

text \<open>
  Modelled from the spec: a run in mode compress, from the initial Codebook \<open>cb\<close>
  with the buffer empty and nothing emitted.
\<close>

definition compress :: "'cb codebook \<Rightarrow> 'cb \<Rightarrow> string \<Rightarrow> string \<Rightarrow> tool_result" where
  "compress cbk cb alphabet input_data =
     (case encode cbk alphabet cb [] [] input_data of
        Inl err \<Rightarrow> \<lparr>exit_status = 1, output_stream = None, diagnostic = Some err\<rparr>
      | Inr codewords \<Rightarrow>
          \<lparr>exit_status = 0, output_stream = Some codewords, diagnostic = None\<rparr>)"


section \<open>Properties of pick\_bitwidths\<close>

lemma bit_length_0: "bit_length 0 = 0"
  by (simp add: bit_length.simps)

lemma bit_length_pos: "0 < n \<Longrightarrow> bit_length n = Suc (bit_length (n div 2))"
  by (subst bit_length.simps) simp

lemma bit_length_upper: "0 \<le> m \<Longrightarrow> m < 2 ^ bit_length m"
proof (induction m rule: bit_length.induct)
  case (1 n)
  show ?case
  proof (cases "n = 0")
    case True
    then show ?thesis by (simp add: bit_length_0)
  next
    case False
    with "1.prems" have pos: "0 < n" by simp
    with False "1.IH" have "n div 2 < 2 ^ bit_length (n div 2)"
      by simp
    with pos show ?thesis
      by (simp add: bit_length_pos)
  qed
qed

lemma bit_length_lower: "0 < m \<Longrightarrow> 2 ^ bit_length m \<le> 2 * m"
proof (induction m rule: bit_length.induct)
  case (1 n)
  from "1.prems" have pos: "0 < n" .
  show ?case
  proof (cases "n div 2 = 0")
    case True
    with pos have "n = 1" by arith
    then show ?thesis by (simp add: bit_length_pos bit_length_0)
  next
    case False
    with pos have "0 < n div 2" by arith
    with pos "1.IH" have "2 ^ bit_length (n div 2) \<le> 2 * (n div 2)"
      by simp
    with pos show ?thesis
      by (simp add: bit_length_pos)
  qed
qed

lemma bit_length_unique:
  assumes "0 < m" "2 ^ k \<le> 2 * m" "m < 2 ^ k"
  shows "bit_length m = k"
proof -
  have a: "(2::int) ^ bit_length m \<le> 2 * m" using assms(1) by (rule bit_length_lower)
  have b: "m < 2 ^ bit_length m" using assms(1) by (simp add: bit_length_upper)
  have "\<not> bit_length m < k"
  proof
    assume "bit_length m < k"
    then have "Suc (bit_length m) \<le> k" by simp
    then have "(2::int) ^ Suc (bit_length m) \<le> 2 ^ k" by (rule power_increasing) simp
    with assms(2) b show False by simp
  qed
  moreover have "\<not> k < bit_length m"
  proof
    assume "k < bit_length m"
    then have "Suc k \<le> bit_length m" by simp
    then have "(2::int) ^ Suc k \<le> 2 ^ bit_length m" by (rule power_increasing) simp
    with a assms(3) show False by simp
  qed
  ultimately show ?thesis by simp
qed

lemma pick_bitwidths_3: "pick_bitwidths 3 = (2, 4)"
  by (simp add: pick_bitwidths_def bit_length_pos bit_length_0)


lemma bit_length_ge2: "2 \<le> m \<Longrightarrow> 2 \<le> bit_length m"
proof -
  assume m: "2 \<le> m"
  then have "m < 2 ^ bit_length m" by (simp add: bit_length_upper)
  with m have "(2::int) ^ 1 < 2 ^ bit_length m" by simp
  then have "1 < bit_length m" by (simp only: power_strict_increasing_iff)
  then show ?thesis by simp
qed

lemma minW_small: "1 \<le> n \<Longrightarrow> n \<le> 2 \<Longrightarrow> fst (pick_bitwidths n) = 2"
proof -
  assume "1 \<le> n" "n \<le> 2"
  then have "n = 1 \<or> n = 2" by arith
  then show ?thesis
    by (auto simp: pick_bitwidths_def bit_length_pos bit_length_0)
qed

lemma minW_large: "3 \<le> n \<Longrightarrow> fst (pick_bitwidths n) = int (bit_length (n - 1))"
  using bit_length_ge2 [of "n - 1"] by (simp add: pick_bitwidths_def Let_def)

lemma minW_holds_symbols: "1 \<le> n \<Longrightarrow> n \<le> 2 ^ nat (fst (pick_bitwidths n))"
proof (cases "n \<le> 2")
  case True
  assume "1 \<le> n"
  with True show ?thesis by (simp add: minW_small)
next
  case False
  then have "n - 1 < 2 ^ bit_length (n - 1)" by (simp add: bit_length_upper)
  with False show ?thesis by (simp add: minW_large)
qed

lemma marker_room_iff:
  assumes "1 \<le> n"
  shows "n + 2 \<le> 2 ^ nat (fst (pick_bitwidths n)) \<longleftrightarrow>
         \<not> (3 \<le> n \<and> (\<exists>k::nat. n = 2 ^ k \<or> n + 1 = 2 ^ k))"
proof (cases "n \<le> 2")
  case True
  with assms show ?thesis by (simp add: minW_small)
next
  case False
  then have n3: "3 \<le> n" by simp
  define k where "k = bit_length (n - 1)"
  have mw: "nat (fst (pick_bitwidths n)) = k" using n3 by (simp add: minW_large k_def)
  have up: "n \<le> 2 ^ k" using n3 bit_length_upper [of "n - 1"] by (simp add: k_def)
  show ?thesis
  proof
    assume room: "n + 2 \<le> 2 ^ nat (fst (pick_bitwidths n))"
    have "\<not> (\<exists>j::nat. n = 2 ^ j \<or> n + 1 = 2 ^ j)"
    proof
      assume "\<exists>j::nat. n = 2 ^ j \<or> n + 1 = 2 ^ j"
      then obtain j :: nat where j: "n = 2 ^ j \<or> n + 1 = 2 ^ j" by blast
      have "bit_length (n - 1) = j"
      proof (rule bit_length_unique)
        show "0 < n - 1" using n3 by simp
        show "2 ^ j \<le> 2 * (n - 1)" using j n3 by auto
        show "n - 1 < 2 ^ j" using j by auto
      qed
      then have "k = j" by (simp add: k_def)
      with j room mw show False by auto
    qed
    then show "\<not> (3 \<le> n \<and> (\<exists>k::nat. n = 2 ^ k \<or> n + 1 = 2 ^ k))" by simp
  next
    assume no: "\<not> (3 \<le> n \<and> (\<exists>k::nat. n = 2 ^ k \<or> n + 1 = 2 ^ k))"
    with n3 have "n \<noteq> 2 ^ k" "n + 1 \<noteq> 2 ^ k" by blast+
    with up have "n + 2 \<le> 2 ^ k" by simp
    with mw show "n + 2 \<le> 2 ^ nat (fst (pick_bitwidths n))" by simp
  qed
qed

text \<open>
  Claim C7, as stated: for every alphabet size \<open>n \<ge> 1\<close>, \<open>pick_bitwidths n\<close> gives
  \<open>2 \<le> minW \<le> maxW\<close> and \<open>2 ^ minW \<ge> n + 2\<close>. The last part fails at \<open>n = 3\<close>:
  \<open>(3 - 1).bit_length() = 2\<close>, so \<open>minW = 2\<close> and \<open>2 ^ 2 = 4 < 5\<close>.
\<close>

theorem pick_bitwidths_marker_room_counterexample:
  "\<not> ((3::int) + 2 \<le> 2 ^ nat (fst (pick_bitwidths 3)))"
  by (simp add: pick_bitwidths_3)

text \<open>
  Claim C7, amended: for every alphabet size \<open>n \<ge> 1\<close>, \<open>pick_bitwidths n = (minW, maxW)\<close>
  satisfies \<open>2 \<le> minW \<le> maxW = minW + 2\<close>; \<open>2 ^ minW\<close> holds the \<open>n\<close> base symbol codes
  and \<open>2 ^ maxW\<close> holds them with the two marker codes; \<open>2 ^ minW \<ge> n + 2\<close> holds
  exactly when it is not the case that \<open>n \<ge> 3\<close> and \<open>n\<close> or \<open>n + 1\<close> is a power of two.
\<close>

theorem pick_bitwidths_bounds:
  assumes "1 \<le> n"
  shows "2 \<le> fst (pick_bitwidths n)
       \<and> fst (pick_bitwidths n) \<le> snd (pick_bitwidths n)
       \<and> snd (pick_bitwidths n) = fst (pick_bitwidths n) + 2
       \<and> n \<le> 2 ^ nat (fst (pick_bitwidths n))
       \<and> n + 2 \<le> 2 ^ nat (snd (pick_bitwidths n))
       \<and> (n + 2 \<le> 2 ^ nat (fst (pick_bitwidths n)) \<longleftrightarrow>
            \<not> (3 \<le> n \<and> (\<exists>k::nat. n = 2 ^ k \<or> n + 1 = 2 ^ k)))"
proof -
  let ?a = "fst (pick_bitwidths n)"
  have two: "2 \<le> ?a" by (simp add: pick_bitwidths_def Let_def)
  have snd_eq: "snd (pick_bitwidths n) = ?a + 2" by (simp add: pick_bitwidths_def Let_def)
  have hold: "n \<le> 2 ^ nat ?a" using assms by (rule minW_holds_symbols)
  have "nat (?a + 2) = nat ?a + 2" using two by simp
  then have "(2::int) ^ nat (?a + 2) = 4 * 2 ^ nat ?a" by (simp add: power_add)
  with hold assms have big: "n + 2 \<le> 2 ^ nat (?a + 2)" by simp
  from two snd_eq hold big marker_room_iff [OF assms] show ?thesis by simp
qed

theorem pick_bitwidths_bounds_witness:
  "(1::int) \<le> 5 \<and> pick_bitwidths 5 = (3, 5) \<and> (5::int) + 2 \<le> 2 ^ nat (fst (pick_bitwidths 5))"
proof -
  have v: "pick_bitwidths 5 = (3, 5)"
    by (simp add: pick_bitwidths_def bit_length_pos bit_length_0)
  have h: "(1::int) \<le> 5" by simp
  from pick_bitwidths_bounds [OF h] v show ?thesis by simp
qed

section \<open>Text that is read back unchanged\<close>

lemma utf8_valid_Nil [simp]: "utf8_valid []"
  by (simp add: utf8_valid.simps)

lemma py_len_Nil [simp]: "py_len [] = 0"
  by (simp add: py_len_def)

lemma plain_text_Nil [simp]: "plain_text []"
  by (simp add: plain_text_def)

lemma plain_text_Cons [simp]:
  "plain_text (c # s) \<longleftrightarrow> (of_char c :: nat) < 0x80 \<and> c \<noteq> CHR 0x0D \<and> plain_text s"
  by (simp add: plain_text_def)

lemma plain_text_append [simp]: "plain_text (s @ t) \<longleftrightarrow> plain_text s \<and> plain_text t"
  by (simp add: plain_text_def)

lemma plain_text_concat: "list_all plain_text ss \<Longrightarrow> plain_text (concat ss)"
  by (induction ss) simp_all

lemma plain_text_py_mul: "plain_text s \<Longrightarrow> plain_text (py_mul s k)"
  by (simp add: py_mul_def plain_text_concat list_all_iff)

lemma utf8_valid_plain: "plain_text s \<Longrightarrow> utf8_valid s"
  by (induction s) (simp_all add: utf8_valid.simps)

lemma universal_newlines_plain: "plain_text s \<Longrightarrow> universal_newlines s = s"
  by (induction s rule: universal_newlines.induct) simp_all

lemma py_decode_plain: "plain_text s \<Longrightarrow> py_decode s = Inr s"
  by (simp add: py_decode_def utf8_valid_plain)

lemma read_text_plain: "plain_text s \<Longrightarrow> read_text s = Inr s"
  by (simp add: read_text_def py_decode_plain universal_newlines_plain)

lemma py_len_plain: "plain_text s \<Longrightarrow> py_len s = length s"
  by (induction s) (simp_all add: py_len_def is_continuation_def)

lemma read_text_not_zero_division: "read_text data \<noteq> Inl ZeroDivisionError"
  by (simp add: read_text_def py_decode_def)

lemma py_decode_cases:
  "py_decode data = Inl UnicodeDecodeError \<or> py_decode data = Inr data"
  by (simp add: py_decode_def)

lemma read_text_cases:
  "read_text data = Inl UnicodeDecodeError \<or> (\<exists>t. read_text data = Inr t)"
  by (simp add: read_text_def py_decode_def)

lemma open_w_plain:
  "CHR ''/'' \<notin> set path \<Longrightarrow> CHR 0x00 \<notin> set path \<Longrightarrow> open_w e path = None"
  by (simp add: open_w_def)

lemma can_write_lru_files: "plain_name n \<Longrightarrow> can_write e (lru_files n)"
  by (simp add: can_write_def lru_files_def plain_name_def open_w_def)

lemma can_write_policy_files: "plain_name n \<Longrightarrow> can_write e (policy_files n)"
  by (simp add: can_write_def policy_files_def plain_name_def open_w_def)

section \<open>The three round-trip functions\<close>

lemma fs_cleanup: "fs (cleanup fl w) p = (if p \<in> set fl then None else fs w p)"
  by (induction fl arbitrary: w) auto

lemma printed_cleanup: "printed (cleanup fl w) = printed w"
  by (induction fl arbitrary: w) auto

lemma rng_cleanup: "rng (cleanup fl w) = rng w"
  by (induction fl arbitrary: w) auto

lemma max_py_len_1: "py_len s \<noteq> 0 \<Longrightarrow> max (int (py_len s)) 1 = int (py_len s)"
  by simp

lemma fs_write_file: "fs (write_file p c w) = (fs w)(p \<mapsto> c)"
  by (simp add: write_file_def)

lemma fs_log_fail: "fs (log_fail m w) = fs w"
  by (simp add: log_fail_def)

subsection \<open>compress\_expand\_test\<close>

lemma cet_compare_passed:
  "fs w d = Some out \<Longrightarrow> fs w c = Some cs \<Longrightarrow>
   fst (cet_compare s n c d w) =
     (case read_text out of
        Inl ex \<Rightarrow> Inl ex
      | Inr t \<Rightarrow>
          if s = t
          then Inr (True, Some (if py_len s = 0 then 0
                                else of_int (int (length cs)) / of_int (int (py_len s))))
          else Inr (False, None))"
  by (simp add: cet_compare_def py_truediv_def split: sum.split)

lemma cet_expand_fst:
  "fs w c = Some cs \<Longrightarrow> c \<noteq> d \<Longrightarrow>
   fst (cet_expand e s n c d w) =
     (case run e expand_argv (Some cs) of
        Inl m \<Rightarrow> Inl (OSError m)
      | Inr r \<Rightarrow>
          if returncode r \<noteq> 0
          then (case py_decode (stderr r) of Inl ex \<Rightarrow> Inl ex | Inr m \<Rightarrow> Inr (False, None))
          else (case read_text (stdout r) of
                  Inl ex \<Rightarrow> Inl ex
                | Inr t \<Rightarrow>
                    if s = t
                    then Inr (True, Some (if py_len s = 0 then 0
                                          else of_int (int (length cs)) / of_int (int (py_len s))))
                    else Inr (False, None)))"
  by (simp add: cet_expand_def cet_compare_passed fs_write_file split: sum.split)

lemma cet_compress_fst:
  "fs w i = Some s \<Longrightarrow> c \<noteq> d \<Longrightarrow>
   fst (cet_compress e s path minW maxW policy n i c d w) =
     (case run e (compress_argv (py_str minW) (py_str maxW) policy path) (Some s) of
        Inl m \<Rightarrow> Inl (OSError m)
      | Inr r1 \<Rightarrow>
          if returncode r1 \<noteq> 0
          then (case py_decode (stderr r1) of Inl ex \<Rightarrow> Inl ex | Inr m \<Rightarrow> Inr (False, None))
          else (case run e expand_argv (Some (stdout r1)) of
                  Inl m \<Rightarrow> Inl (OSError m)
                | Inr r2 \<Rightarrow>
                    if returncode r2 \<noteq> 0
                    then (case py_decode (stderr r2) of
                            Inl ex \<Rightarrow> Inl ex
                          | Inr m \<Rightarrow> Inr (False, None))
                    else (case read_text (stdout r2) of
                            Inl ex \<Rightarrow> Inl ex
                          | Inr t \<Rightarrow>
                              if s = t
                              then Inr (True, Some (if py_len s = 0 then 0
                                                    else of_int (int (length (stdout r1)))
                                                         / of_int (int (py_len s))))
                              else Inr (False, None))))"
  by (simp add: cet_compress_def cet_expand_fst fs_write_file split: sum.split)

lemma cet_result:
  "fst (compress_expand_test e s path minW maxW policy name w) =
     (case run e (compress_argv (py_str minW) (py_str maxW) policy path) (Some s) of
        Inl m \<Rightarrow> Inl (OSError m)
      | Inr r1 \<Rightarrow>
          if returncode r1 \<noteq> 0
          then (case py_decode (stderr r1) of Inl ex \<Rightarrow> Inl ex | Inr m \<Rightarrow> Inr (False, None))
          else (case run e expand_argv (Some (stdout r1)) of
                  Inl m \<Rightarrow> Inl (OSError m)
                | Inr r2 \<Rightarrow>
                    if returncode r2 \<noteq> 0
                    then (case py_decode (stderr r2) of
                            Inl ex \<Rightarrow> Inl ex
                          | Inr m \<Rightarrow> Inr (False, None))
                    else (case read_text (stdout r2) of
                            Inl ex \<Rightarrow> Inl ex
                          | Inr t \<Rightarrow>
                              if s = t
                              then Inr (True, Some (if py_len s = 0 then 0
                                                    else of_int (int (length (stdout r1)))
                                                         / of_int (int (py_len s))))
                              else Inr (False, None))))"
proof -
  let ?i = "mktemp e (fs w) ''.txt''"
  have "fst (compress_expand_test e s path minW maxW policy name w) =
        fst (cet_compress e s path minW maxW policy name ?i (?i @ ''.lzw'') (?i @ ''.out'')
               (write_file ?i s w))"
    by (simp add: compress_expand_test_def Let_def split: prod.split)
  then show ?thesis
    by (simp add: cet_compress_fst fs_write_file)
qed

lemma cet_passed_iff:
  "passed (fst (compress_expand_test e s path minW maxW policy name w)) \<longleftrightarrow>
   expand_compress e (compress_argv (py_str minW) (py_str maxW) policy path) s = Some s"
  by (auto simp: cet_result passed_def expand_compress_def tool_compress_def tool_expand_def
      split: sum.split)

lemma cet_removes:
  "p \<in> {mktemp e (fs w) ''.txt'', mktemp e (fs w) ''.txt'' @ ''.lzw'',
         mktemp e (fs w) ''.txt'' @ ''.out''} \<Longrightarrow>
   fs (snd (compress_expand_test e s path minW maxW policy name w)) p = None"
  by (auto simp: compress_expand_test_def Let_def fs_cleanup split: prod.split)

subsection \<open>run\_test and test\_policy\<close>

lemma rt_compare_fst:
  "fs w d = Some out \<Longrightarrow> fs w c = Some cs \<Longrightarrow>
   fst (rt_compare s c d w) =
     compare_outcome ''Mismatch! Original length: '' '', Decompressed length: '' s cs out"
  by (simp add: rt_compare_def compare_outcome_def percent_def py_truediv_def Let_def
      split: sum.split)

lemma rt_expand_fst:
  "fs w c = Some cs \<Longrightarrow> c \<noteq> d \<Longrightarrow>
   fst (rt_expand e s c d w) =
     expand_outcome e ''Mismatch! Original length: '' '', Decompressed length: '' s cs d"
  by (simp add: rt_expand_def expand_outcome_def stage_def rt_compare_fst fs_write_file
      split: sum.split option.split)

lemma rt_compress_fst:
  "fs w i = Some s \<Longrightarrow> c \<noteq> d \<Longrightarrow>
   fst (rt_compress e s policy minW maxW i c d w) =
     compress_outcome e ''Mismatch! Original length: '' '', Decompressed length: ''
       (compress_argv (py_str minW) (py_str maxW) policy ''alphabet_ab.txt'') s c d"
  by (simp add: rt_compress_def compress_outcome_def stage_def rt_expand_fst fs_write_file
      split: sum.split option.split)

lemma rt_body_fst:
  "c \<noteq> d \<Longrightarrow>
   fst (rt_body e s policy minW maxW i c d w) =
     body_outcome e ''Mismatch! Original length: '' '', Decompressed length: ''
       (compress_argv (py_str minW) (py_str maxW) policy ''alphabet_ab.txt'') s i c d"
  by (simp add: rt_body_def body_outcome_def rt_compress_fst fs_write_file Let_def
      split: sum.split option.split)

lemma run_test_result:
  "fst (run_test e test_name s policy minW maxW w) =
     caught (body_outcome e ''Mismatch! Original length: '' '', Decompressed length: ''
               (compress_argv (py_str minW) (py_str maxW) policy ''alphabet_ab.txt'') s
               (''test_input_'' @ test_name @ ''.txt'')
               (''test_compressed_'' @ test_name @ ''.bin'')
               (''test_decompressed_'' @ test_name @ ''.txt''))"
proof -
  have ne: "''test_compressed_'' @ test_name @ ''.bin'' \<noteq> ''test_decompressed_'' @ test_name @ ''.txt''"
    by simp
  show ?thesis
    by (simp only: run_test_def Let_def split_beta fst_conv rt_body_fst [OF ne] caught_def)
qed

lemma run_test_removes:
  "p \<in> {''test_input_'' @ test_name @ ''.txt'', ''test_compressed_'' @ test_name @ ''.bin'', ''test_decompressed_'' @ test_name @ ''.txt''} \<Longrightarrow>
   fs (snd (run_test e test_name s policy minW maxW w)) p = None"
  by (auto simp: run_test_def Let_def fs_cleanup split: prod.split)

lemma tp_compare_fst:
  "fs w d = Some out \<Longrightarrow> fs w c = Some cs \<Longrightarrow>
   fst (tp_compare s c d w) =
     compare_outcome ''Mismatch! Original: '' '', Decompressed: '' s cs out"
  by (simp add: tp_compare_def compare_outcome_def percent_def py_truediv_def Let_def
      split: sum.split)

lemma tp_expand_fst:
  "fs w c = Some cs \<Longrightarrow> c \<noteq> d \<Longrightarrow>
   fst (tp_expand e s c d w) =
     expand_outcome e ''Mismatch! Original: '' '', Decompressed: '' s cs d"
  by (simp add: tp_expand_def expand_outcome_def stage_def tp_compare_fst fs_write_file
      split: sum.split option.split)

lemma tp_compress_fst:
  "fs w i = Some s \<Longrightarrow> c \<noteq> d \<Longrightarrow>
   fst (tp_compress e policy_name s i c d w) =
     compress_outcome e ''Mismatch! Original: '' '', Decompressed: ''
       (compress_argv ''9'' ''12'' policy_name ''alphabet_ab.txt'') s c d"
  by (simp add: tp_compress_def compress_outcome_def stage_def tp_expand_fst fs_write_file
      split: sum.split option.split)

lemma tp_body_fst:
  "c \<noteq> d \<Longrightarrow>
   fst (tp_body e policy_name s i c d w) =
     body_outcome e ''Mismatch! Original: '' '', Decompressed: ''
       (compress_argv ''9'' ''12'' policy_name ''alphabet_ab.txt'') s i c d"
  by (simp add: tp_body_def body_outcome_def tp_compress_fst fs_write_file Let_def
      split: sum.split option.split)

lemma test_policy_result:
  "fst (test_policy e policy_name s w) =
     caught (body_outcome e ''Mismatch! Original: '' '', Decompressed: ''
               (compress_argv ''9'' ''12'' policy_name ''alphabet_ab.txt'') s
               (''test_'' @ policy_name @ ''_input.txt'')
               (''test_'' @ policy_name @ ''_compressed.bin'')
               (''test_'' @ policy_name @ ''_decompressed.txt''))"
proof -
  have ne: "''test_'' @ policy_name @ ''_compressed.bin'' \<noteq> ''test_'' @ policy_name @ ''_decompressed.txt''"
    by simp
  show ?thesis
    by (simp only: test_policy_def Let_def split_beta fst_conv tp_body_fst [OF ne] caught_def)
qed

lemma test_policy_removes:
  "p \<in> {''test_'' @ policy_name @ ''_input.txt'', ''test_'' @ policy_name @ ''_compressed.bin'', ''test_'' @ policy_name @ ''_decompressed.txt''} \<Longrightarrow>
   fs (snd (test_policy e policy_name s w)) p = None"
  by (auto simp: test_policy_def Let_def fs_cleanup split: prod.split)


subsection \<open>What the three functions return and leave behind\<close>

lemma stage_passed:
  "fst (caught (stage e p argv input_bytes t k)) \<longleftrightarrow>
   open_w e p = None \<and>
   (case run e argv (Some input_bytes) of
      Inl m \<Rightarrow> False
    | Inr r \<Rightarrow> returncode r = 0 \<and> fst (caught (k r)))"
  by (auto simp: stage_def caught_def split: sum.split option.split)

lemma stage_value:
  assumes "fst (caught (stage e p argv input_bytes t k))"
    and "\<And>r. fst (caught (k r)) \<Longrightarrow> caught (k r) = v"
  shows "caught (stage e p argv input_bytes t k) = v"
proof -
  from assms(1) obtain r where r: "open_w e p = None" "run e argv (Some input_bytes) = Inr r"
      "returncode r = 0" "fst (caught (k r))"
    by (auto simp: stage_passed split: sum.splits)
  then have "stage e p argv input_bytes t k = k r"
    by (simp add: stage_def)
  with assms(2) [OF r(4)] show ?thesis by simp
qed

lemma stage_not_zero_division:
  assumes "\<And>r. caught (k r) \<noteq> (False, [Str ''Exception: '', Exc ZeroDivisionError])"
  shows "caught (stage e p argv input_bytes t k)
           \<noteq> (False, [Str ''Exception: '', Exc ZeroDivisionError])"
proof (cases "open_w e p")
  case (Some ex)
  then have "ex \<noteq> ZeroDivisionError" by (auto simp: open_w_def split: if_splits)
  with Some show ?thesis by (simp add: stage_def caught_def)
next
  case None
  show ?thesis
  proof (cases "run e argv (Some input_bytes)")
    case (Inl m)
    with None show ?thesis by (simp add: stage_def caught_def)
  next
    case (Inr r)
    show ?thesis
    proof (cases "returncode r = 0")
      case True
      with None Inr have "stage e p argv input_bytes t k = k r" by (simp add: stage_def)
      with assms [of r] show ?thesis by simp
    next
      case False
      with None Inr show ?thesis
        by (simp add: stage_def caught_def py_decode_def)
    qed
  qed
qed

lemma compare_outcome_passed:
  "fst (caught (compare_outcome a b s cs out)) \<longleftrightarrow> read_text out = Inr s"
  by (auto simp: compare_outcome_def caught_def split: sum.split)

lemma expand_outcome_passed:
  "fst (caught (expand_outcome e a b s cs d)) \<longleftrightarrow>
   open_w e d = None \<and> tool_expand e cs = Some s"
  by (auto simp: expand_outcome_def stage_passed compare_outcome_passed tool_expand_def
      split: sum.split)

lemma compress_outcome_passed:
  "fst (caught (compress_outcome e a b argv s c d)) \<longleftrightarrow>
   open_w e c = None \<and> open_w e d = None \<and> expand_compress e argv s = Some s"
  by (auto simp: compress_outcome_def stage_passed expand_outcome_passed expand_compress_def
        tool_compress_def split: sum.split)

lemma body_outcome_passed:
  "fst (caught (body_outcome e a b argv s i c d)) \<longleftrightarrow>
   can_write e [i, c, d] \<and> compiles e \<and> expand_compress e argv s = Some s"
proof (cases "open_w e i")
  case (Some ex)
  then show ?thesis by (simp add: body_outcome_def caught_def can_write_def)
next
  case None
  show ?thesis
  proof (cases "run_text e javac_argv None")
    case (Inl ex)
    with None show ?thesis by (simp add: body_outcome_def caught_def compiles_def)
  next
    case (Inr r)
    show ?thesis
    proof (cases "returncode r = 0")
      case True
      with None Inr have "body_outcome e a b argv s i c d = compress_outcome e a b argv s c d"
        by (simp add: body_outcome_def)
      with None Inr True show ?thesis
        by (simp add: compress_outcome_passed can_write_def compiles_def)
    next
      case False
      with None Inr show ?thesis by (simp add: body_outcome_def caught_def compiles_def)
    qed
  qed
qed

lemma run_test_passed_iff:
  "fst (fst (run_test e test_name s policy minW maxW w)) \<longleftrightarrow>
   can_write e (lru_files test_name) \<and> compiles e \<and>
   expand_compress e (compress_argv (py_str minW) (py_str maxW) policy ''alphabet_ab.txt'') s
     = Some s"
  by (simp only: run_test_result body_outcome_passed lru_files_def)

lemma test_policy_passed_iff:
  "fst (fst (test_policy e policy_name s w)) \<longleftrightarrow>
   can_write e (policy_files policy_name) \<and> compiles e \<and>
   expand_compress e (compress_argv ''9'' ''12'' policy_name ''alphabet_ab.txt'') s = Some s"
  by (simp only: test_policy_result body_outcome_passed policy_files_def)

lemma run_test_passed_plain:
  "plain_name test_name \<Longrightarrow>
   fst (fst (run_test e test_name s policy minW maxW w)) \<longleftrightarrow>
   compiles e \<and>
   expand_compress e (compress_argv (py_str minW) (py_str maxW) policy ''alphabet_ab.txt'') s
     = Some s"
  by (simp add: run_test_passed_iff can_write_lru_files)

lemma test_policy_passed_plain:
  "plain_name policy_name \<Longrightarrow>
   fst (fst (test_policy e policy_name s w)) \<longleftrightarrow>
   compiles e \<and>
   expand_compress e (compress_argv ''9'' ''12'' policy_name ''alphabet_ab.txt'') s = Some s"
  by (simp add: test_policy_passed_iff can_write_policy_files)

lemma compare_outcome_not_zero_division:
  "caught (compare_outcome a b s cs out)
     \<noteq> (False, [Str ''Exception: '', Exc ZeroDivisionError])"
  by (simp add: compare_outcome_def caught_def read_text_def py_decode_def)

lemma expand_outcome_not_zero_division:
  "caught (expand_outcome e a b s cs d)
     \<noteq> (False, [Str ''Exception: '', Exc ZeroDivisionError])"
  unfolding expand_outcome_def
  by (rule stage_not_zero_division) (rule compare_outcome_not_zero_division)

lemma compress_outcome_not_zero_division:
  "caught (compress_outcome e a b argv s c d)
     \<noteq> (False, [Str ''Exception: '', Exc ZeroDivisionError])"
  unfolding compress_outcome_def
  by (rule stage_not_zero_division) (rule expand_outcome_not_zero_division)

lemma body_outcome_not_zero_division:
  "caught (body_outcome e a b argv s i c d)
     \<noteq> (False, [Str ''Exception: '', Exc ZeroDivisionError])"
proof (cases "open_w e i")
  case (Some ex)
  then have "ex \<noteq> ZeroDivisionError" by (auto simp: open_w_def split: if_splits)
  with Some show ?thesis by (simp add: body_outcome_def caught_def)
next
  case None
  show ?thesis
  proof (cases "run_text e javac_argv None")
    case (Inl ex)
    then have "ex \<noteq> ZeroDivisionError"
      by (auto simp: run_text_def read_text_def py_decode_def split: sum.splits if_splits)
    with None Inl show ?thesis by (simp add: body_outcome_def caught_def)
  next
    case (Inr r)
    show ?thesis
    proof (cases "returncode r = 0")
      case True
      with None Inr have "body_outcome e a b argv s i c d = compress_outcome e a b argv s c d"
        by (simp add: body_outcome_def)
      then show ?thesis by (simp add: compress_outcome_not_zero_division)
    next
      case False
      with None Inr show ?thesis by (simp add: body_outcome_def caught_def)
    qed
  qed
qed

lemma cet_not_zero_division:
  "fst (compress_expand_test e s path minW maxW policy name w) \<noteq> Inl ZeroDivisionError"
  by (simp add: cet_result read_text_def py_decode_def split: sum.split)

lemma run_test_not_zero_division:
  "fst (run_test e test_name s policy minW maxW w)
     \<noteq> (False, [Str ''Exception: '', Exc ZeroDivisionError])"
  by (simp only: run_test_result body_outcome_not_zero_division not_False_eq_True)

lemma test_policy_not_zero_division:
  "fst (test_policy e policy_name s w) \<noteq> (False, [Str ''Exception: '', Exc ZeroDivisionError])"
  by (simp only: test_policy_result body_outcome_not_zero_division not_False_eq_True)

lemma cet_empty_ratio:
  "passed (fst (compress_expand_test e [] path minW maxW policy name w)) \<Longrightarrow>
   fst (compress_expand_test e [] path minW maxW policy name w) = Inr (True, Some 0)"
  by (auto simp: cet_result passed_def split: sum.splits if_splits)

lemma compare_outcome_empty:
  "fst (caught (compare_outcome a b [] cs out)) \<Longrightarrow>
   caught (compare_outcome a b [] cs out)
     = (True, [Str ''Success! Compression ratio: '', Flt 0, Str ''%''])"
  by (auto simp: compare_outcome_def caught_def percent_def split: sum.splits if_splits)

lemma expand_outcome_empty:
  "fst (caught (expand_outcome e a b [] cs d)) \<Longrightarrow>
   caught (expand_outcome e a b [] cs d)
     = (True, [Str ''Success! Compression ratio: '', Flt 0, Str ''%''])"
  unfolding expand_outcome_def
  by (erule stage_value) (rule compare_outcome_empty)

lemma compress_outcome_empty:
  "fst (caught (compress_outcome e a b argv [] c d)) \<Longrightarrow>
   caught (compress_outcome e a b argv [] c d)
     = (True, [Str ''Success! Compression ratio: '', Flt 0, Str ''%''])"
  unfolding compress_outcome_def
  by (erule stage_value) (rule expand_outcome_empty)

lemma body_outcome_empty:
  assumes "fst (caught (body_outcome e a b argv [] i c d))"
  shows "caught (body_outcome e a b argv [] i c d)
           = (True, [Str ''Success! Compression ratio: '', Flt 0, Str ''%''])"
proof -
  from assms have "can_write e [i, c, d]" and "compiles e"
    by (simp_all add: body_outcome_passed)
  then obtain r where "open_w e i = None" "run_text e javac_argv None = Inr r" "returncode r = 0"
    by (auto simp: can_write_def compiles_def split: sum.splits)
  then have eq: "body_outcome e a b argv [] i c d = compress_outcome e a b argv [] c d"
    by (simp add: body_outcome_def)
  with assms show ?thesis by (simp add: compress_outcome_empty)
qed

lemma run_test_empty_ratio:
  "fst (fst (run_test e test_name [] policy minW maxW w)) \<Longrightarrow>
   fst (run_test e test_name [] policy minW maxW w)
     = (True, [Str ''Success! Compression ratio: '', Flt 0, Str ''%''])"
  by (simp only: run_test_result) (rule body_outcome_empty)

lemma test_policy_empty_ratio:
  "fst (fst (test_policy e policy_name [] w)) \<Longrightarrow>
   fst (test_policy e policy_name [] w)
     = (True, [Str ''Success! Compression ratio: '', Flt 0, Str ''%''])"
  by (simp only: test_policy_result) (rule body_outcome_empty)

lemma run_copy_env:
  "run copy_env argv stdin =
     Inr \<lparr>returncode = 0, stdout = (case stdin of None \<Rightarrow> [] | Some s \<Rightarrow> s), stderr = []\<rparr>"
  by (simp add: copy_env_def)

lemma mktemp_copy_env: "mktemp copy_env files suffix = ''/tmp/tmp0'' @ suffix"
  by (simp add: copy_env_def)

lemma expand_compress_copy_env:
  "plain_text s \<Longrightarrow> expand_compress copy_env argv s = Some s"
  by (simp add: expand_compress_def tool_compress_def tool_expand_def run_copy_env
        read_text_plain)

lemma compiles_copy_env: "compiles copy_env"
  by (simp add: compiles_def run_text_def run_copy_env read_text_plain)

subsection \<open>Three ways to fail\<close>

text \<open>
  A test name with \<^verbatim>\<open>/\<close> names a directory that does not exist, and \<^verbatim>\<open>run_test\<close>
  reports the exception; a carriage return in the input is read back as a line feed, and
  the comparison fails although the tool copied its input; an error stream that is not
  UTF-8 makes \<^verbatim>\<open>compress_expand_test\<close> raise.
\<close>

lemma run_test_missing_directory:
  "fst (run_test copy_env ''a/b'' ''ab'' ''lru'' 9 12 empty_world)
     = (False, [Str ''Exception: '', Exc (FileNotFoundError ''test_input_a/b.txt'')])"
  by (simp add: run_test_result body_outcome_def caught_def open_w_def dir_part_def copy_env_def)

lemma cet_carriage_return:
  "fst (compress_expand_test copy_env [CHR ''a'', CHR 0x0D, CHR ''b''] ''alphabets/ab.txt'' 2 4
          ''lru'' ''t'' empty_world) = Inr (False, None)"
  by (simp add: cet_result run_copy_env read_text_def py_decode_def utf8_valid.simps)

lemma cet_undecodable:
  "fst (compress_expand_test garbled_env s path minW maxW policy name w) = Inl UnicodeDecodeError"
  by (simp add: cet_result garbled_env_def py_decode_def utf8_valid.simps)

text \<open>
  Claim C8: when \<^verbatim>\<open>compress_expand_test\<close>, \<^verbatim>\<open>run_test\<close> or \<^verbatim>\<open>test_policy\<close>
  is left, by any \<^verbatim>\<open>return\<close> or by an exception, none of its three files (input,
  compressed, decompressed) exists. The statement holds for every behaviour of the tool
  and every file system before the call, so for each way out of the function.
\<close>

theorem temp_files_removed:
  "fs (snd (compress_expand_test e s path minW maxW policy name w))
        (mktemp e (fs w) ''.txt'') = None
   \<and> fs (snd (compress_expand_test e s path minW maxW policy name w))
        (mktemp e (fs w) ''.txt'' @ ''.lzw'') = None
   \<and> fs (snd (compress_expand_test e s path minW maxW policy name w))
        (mktemp e (fs w) ''.txt'' @ ''.out'') = None
   \<and> fs (snd (run_test e test_name s policy minW maxW w))
        (''test_input_'' @ test_name @ ''.txt'') = None
   \<and> fs (snd (run_test e test_name s policy minW maxW w))
        (''test_compressed_'' @ test_name @ ''.bin'') = None
   \<and> fs (snd (run_test e test_name s policy minW maxW w))
        (''test_decompressed_'' @ test_name @ ''.txt'') = None
   \<and> fs (snd (test_policy e policy_name s w))
        (''test_'' @ policy_name @ ''_input.txt'') = None
   \<and> fs (snd (test_policy e policy_name s w))
        (''test_'' @ policy_name @ ''_compressed.bin'') = None
   \<and> fs (snd (test_policy e policy_name s w))
        (''test_'' @ policy_name @ ''_decompressed.txt'') = None"
  by (simp add: cet_removes run_test_removes test_policy_removes del: append.simps)

theorem temp_files_removed_witness:
  "fst (compress_expand_test copy_env ''ab'' ''alphabets/ab.txt'' 2 4 ''lru'' ''t'' empty_world)
     = Inr (True, Some 1)
   \<and> fs (snd (compress_expand_test copy_env ''ab'' ''alphabets/ab.txt'' 2 4 ''lru'' ''t''
               empty_world)) ''/tmp/tmp0.txt'' = None
   \<and> fs (snd (compress_expand_test copy_env ''ab'' ''alphabets/ab.txt'' 2 4 ''lru'' ''t''
               empty_world)) ''/tmp/tmp0.txt.lzw'' = None
   \<and> fs (snd (compress_expand_test copy_env ''ab'' ''alphabets/ab.txt'' 2 4 ''lru'' ''t''
               empty_world)) ''/tmp/tmp0.txt.out'' = None"
proof -
  have r: "fst (compress_expand_test copy_env ''ab'' ''alphabets/ab.txt'' 2 4 ''lru'' ''t''
                  empty_world) = Inr (True, Some 1)"
    by (simp add: cet_result run_copy_env read_text_plain py_len_plain)
  from r temp_files_removed [where e = copy_env and s = "''ab''"
        and path = "''alphabets/ab.txt''" and minW = 2 and maxW = 4 and policy = "''lru''"
        and name = "''t''" and w = empty_world]
  show ?thesis by (simp add: mktemp_copy_env)
qed

section \<open>The alphabet suite\<close>



















subsection \<open>The verdict of the suite\<close>



lemma random_choice_in: "xs \<noteq> [] \<Longrightarrow> fst (random_choice e xs g) \<in> set xs"
  by (simp add: random_choice_def case_prod_beta)

lemma random_join_plain:
  "chars \<noteq> [] \<Longrightarrow> list_all plain_text chars \<Longrightarrow> plain_text (fst (random_join e chars k g))"
proof (induction k arbitrary: g)
  case 0
  then show ?case by simp
next
  case (Suc k)
  from Suc.prems random_choice_in [of chars e g]
  have "plain_text (fst (random_choice e chars g))" by (auto simp: list_all_iff)
  with Suc show ?case by (simp add: case_prod_beta)
qed


lemma lru_sequences_plain:
  "list_all (\<lambda>(n, s). plain_name n \<and> plain_text s) (fst (generate_test_sequences_lru e g))"
proof -
  have rj: "plain_text (fst (random_join e [''a'', ''b''] k g'))" for k g'
    by (rule random_join_plain) simp_all
  show ?thesis
    by (simp add: generate_test_sequences_lru_def case_prod_beta plain_name_def rj
          plain_text_py_mul)
qed






section \<open>The edge cases\<close>








section \<open>The empty sequence\<close>

lemma run_cases_failed:
  "list_all (\<lambda>(n, s). plain_name n) cases \<Longrightarrow>
   snd (fst (run_cases e cases c w)) =
     snd c + int (length (filter (\<lambda>(n, s). \<not> lru_case_passes e s) cases))"
proof (induction cases arbitrary: c w)
  case Nil
  then show ?case by simp
next
  case (Cons p rest)
  obtain n s where p: "p = (n, s)" by (cases p)
  from Cons.prems p have plain: "plain_name n" and rest: "list_all (\<lambda>(n, s). plain_name n) rest"
    by simp_all
  let ?w1 = "py_print [Str [CHR 0x0A], Str ''Testing: '', Str n, Str '' (length: '',
                       Num (int (py_len s)), Str '')''] w"
  obtain result w2 where r: "run_test e n s ''lru'' 9 12 ?w1 = (result, w2)"
    by (cases "run_test e n s ''lru'' 9 12 ?w1")
  have ok: "fst result \<longleftrightarrow> lru_case_passes e s"
    using run_test_passed_plain [OF plain, of e s "''lru''" 9 12 ?w1] r
    by (simp add: lru_case_passes_def)
  show ?case
  proof (cases "fst result")
    case True
    with r p ok Cons.IH [OF rest, of "(fst c + 1, snd c)"] show ?thesis
      by (simp add: Let_def)
  next
    case False
    with r p ok Cons.IH [OF rest, of "(fst c, snd c + 1)"] show ?thesis
      by (simp add: Let_def)
  qed
qed

lemma lru_names_plain:
  "list_all (\<lambda>(n, s). plain_name n) (fst (generate_test_sequences_lru e g))"
  using lru_sequences_plain [of e g] by (auto simp: list_all_iff)

lemma lru_texts_plain:
  "(n, s) \<in> set (fst (generate_test_sequences_lru e g)) \<Longrightarrow> plain_text s"
  using lru_sequences_plain [of e g] by (auto simp: list_all_iff)

lemma run_all_tests_iff:
  "fst (run_all_tests e w) \<longleftrightarrow>
   (\<forall>(n, s) \<in> set (fst (generate_test_sequences_lru e (rng w))). lru_case_passes e s)"
proof -
  have rng_same: "rng (create_alphabet_file (py_print a (py_print b (py_print c w)))) = rng w"
    for a b c
    by (simp add: create_alphabet_file_def write_file_def py_print_def)
  obtain cases g where gen: "generate_test_sequences_lru e (rng w) = (cases, g)"
    by (cases "generate_test_sequences_lru e (rng w)")
  from lru_names_plain [of e "rng w"] gen have plain: "list_all (\<lambda>(n, s). plain_name n) cases"
    by simp
  have "fst (run_all_tests e w) \<longleftrightarrow> filter (\<lambda>(n, s). \<not> lru_case_passes e s) cases = []"
    using gen
    by (simp add: run_all_tests_def Let_def rng_same case_prod_beta run_cases_failed [OF plain])
  also have "\<dots> \<longleftrightarrow> (\<forall>(n, s) \<in> set cases. lru_case_passes e s)"
    by (auto simp: filter_empty_conv)
  finally show ?thesis using gen by simp
qed





lemma run_text_copy_env:
  "plain_text s \<Longrightarrow>
   run_text copy_env argv (Some s) = Inr \<lparr>returncode = 0, stdout = s, stderr = []\<rparr>"
  "run_text copy_env argv None = Inr \<lparr>returncode = 0, stdout = [], stderr = []\<rparr>"
  by (simp_all add: run_text_def run_copy_env read_text_plain)



lemma lru_case_passes_copy_env: "plain_text s \<Longrightarrow> lru_case_passes copy_env s"
  by (simp add: lru_case_passes_def compiles_copy_env expand_compress_copy_env)







section \<open>The comparison of lru and lfu\<close>








subsection \<open>The script verify\_policies\_differ.py\<close>

lemma ct_body_fst:
  "fs w i = Some s \<Longrightarrow>
   fst (ct_body e ap minW maxW policy i c w) =
     (case run e (compress_argv (py_str minW) (py_str maxW) policy ap) (Some s) of
        Inl m \<Rightarrow> Inl (OSError m)
      | Inr r \<Rightarrow>
          if returncode r \<noteq> 0
          then (case py_decode (stderr r) of Inl ex \<Rightarrow> Inl ex | Inr m \<Rightarrow> Inr None)
          else Inr (Some (int (length (stdout r)))))"
  by (simp add: ct_body_def fs_write_file Let_def py_print_def split: sum.split)

lemma compress_test_fst:
  "fst (compress_test e s ap minW maxW policy w) =
     (case run e (compress_argv (py_str minW) (py_str maxW) policy ap) (Some s) of
        Inl m \<Rightarrow> Inl (OSError m)
      | Inr r \<Rightarrow>
          if returncode r \<noteq> 0
          then (case py_decode (stderr r) of Inl ex \<Rightarrow> Inl ex | Inr m \<Rightarrow> Inr None)
          else Inr (Some (int (length (stdout r)))))"
  by (simp add: compress_test_def Let_def case_prod_beta ct_body_fst fs_write_file)

lemma compress_test_cases:
  "(\<exists>argv input_bytes ex. run_failure e argv input_bytes = Some ex
      \<and> fst (compress_test e s ap minW maxW policy w) = Inl ex) \<or>
   (\<exists>sz. fst (compress_test e s ap minW maxW policy w) = Inr sz)"
proof -
  let ?argv = "compress_argv (py_str minW) (py_str maxW) policy ap"
  show ?thesis
  proof (cases "run_failure e ?argv s")
    case None
    then have "\<exists>sz. fst (compress_test e s ap minW maxW policy w) = Inr sz"
      by (auto simp: compress_test_fst run_failure_def split: sum.splits if_splits)
    then show ?thesis by blast
  next
    case (Some ex)
    then have "fst (compress_test e s ap minW maxW policy w) = Inl ex"
      by (auto simp: compress_test_fst run_failure_def split: sum.splits if_splits)
    with Some show ?thesis by blast
  qed
qed

lemma measure_policies_result:
  "len \<noteq> 0 \<Longrightarrow> list_all (\<lambda>(p, sz, r). r \<noteq> 0) results \<Longrightarrow>
   (\<exists>argv input_bytes ex. run_failure e argv input_bytes = Some ex
      \<and> fst (measure_policies e data af minW maxW len ps results w) = Inl ex) \<or>
   (\<exists>rs. fst (measure_policies e data af minW maxW len ps results w) = Inr rs
         \<and> list_all (\<lambda>(p, sz, r). r \<noteq> 0) rs)"
proof (induction ps arbitrary: results w)
  case Nil
  then show ?case by simp
next
  case (Cons policy rest)
  let ?c = "compress_test e data af minW maxW policy w"
  from compress_test_cases [of e data af minW maxW policy w]
  consider argv input_bytes ex where "run_failure e argv input_bytes = Some ex" "fst ?c = Inl ex"
    | sz where "fst ?c = Inr sz" by blast
  then show ?case
  proof cases
    case 1
    then obtain w1 where "?c = (Inl ex, w1)" by (cases ?c) simp
    then have "fst (measure_policies e data af minW maxW len (policy # rest) results w) = Inl ex"
      by simp
    with 1(1) show ?thesis by blast
  next
    case 2
    then obtain w1 where c: "?c = (Inr sz, w1)" by (cases ?c) simp
    show ?thesis
    proof (cases sz)
      case None
      with c Cons.IH [OF Cons.prems, of w1] show ?thesis by simp
    next
      case (Some k)
      show ?thesis
      proof (cases "k = 0")
        case True
        with c Some Cons.IH [OF Cons.prems, of w1] show ?thesis by simp
      next
        case False
        let ?ratio = "rat_of_int k / rat_of_int len"
        from False Cons.prems(1) have nz: "?ratio \<noteq> 0" by simp
        from Cons.prems(2) nz
        have good: "list_all (\<lambda>(p, sz, r). r \<noteq> 0) (results @ [(policy, k, ?ratio)])"
          by simp
        from c Some False Cons.prems(1)
          Cons.IH [OF Cons.prems(1) good,
            of "py_print [Str ''  '', Str (py_upper policy), Str '': '', Num k,
                          Str '' bytes, ratio: '', Flt ?ratio] w1"]
        show ?thesis by (simp add: py_truediv_def)
      qed
    qed
  qed
qed

lemma report_differences_fst:
  "freeze_ratio \<noteq> 0 \<Longrightarrow> fst (report_differences results freeze_ratio ps w) = Inr ()"
  by (induction ps arbitrary: w) (simp_all add: py_fdiv_def Let_def split: option.split)

lemma verify_config_result:
  assumes "len \<noteq> 0"
  shows "(\<exists>argv input_bytes ex. run_failure e argv input_bytes = Some ex
            \<and> fst (verify_config e (name, chars, af, minW, maxW, len) w) = Inl ex) \<or>
         fst (verify_config e (name, chars, af, minW, maxW, len) w) = Inr ()"
proof -
  let ?w1 = "py_print [Str (py_mul ''-'' 80)]
               (py_print [Str ''minW='', Num minW, Str '', maxW='', Num maxW]
                  (py_print [Str [CHR 0x0A], Str ''Alphabet: '', Str name, Str '' ('',
                             Num (int (length chars)), Str '' chars) - '', Num (int len),
                             Str '' random characters''] w))"
  obtain data g where rj: "random_join e chars len (rng ?w1) = (data, g)"
    by (cases "random_join e chars len (rng ?w1)")
  let ?m = "measure_policies e data af minW maxW (int len) policies [] (?w1\<lparr>rng := g\<rparr>)"
  from assms have l: "int len \<noteq> 0" by simp
  have "list_all (\<lambda>(p, sz, r). r \<noteq> 0) ([] :: (string \<times> int \<times> rat) list)" by simp
  from measure_policies_result [OF l this, of e data af minW maxW policies "?w1\<lparr>rng := g\<rparr>"]
  consider argv input_bytes ex where "run_failure e argv input_bytes = Some ex" "fst ?m = Inl ex"
    | rs where "fst ?m = Inr rs" "list_all (\<lambda>(p, sz, r). r \<noteq> 0) rs" by blast
  then show ?thesis
  proof cases
    case 1
    then obtain w2 where "?m = (Inl ex, w2)" by (cases ?m) simp
    with rj have "fst (verify_config e (name, chars, af, minW, maxW, len) w) = Inl ex"
      by (simp add: verify_config_def Let_def)
    with 1(1) show ?thesis by blast
  next
    case 2
    then obtain w2 where m: "?m = (Inr rs, w2)" by (cases ?m) simp
    show ?thesis
    proof (cases "map_of rs ''freeze''")
      case None
      with rj m show ?thesis by (simp add: verify_config_def Let_def)
    next
      case (Some entry)
      then have "(''freeze'', entry) \<in> set rs" by (rule map_of_SomeD)
      with 2(2) have nz: "snd entry \<noteq> 0" by (auto simp: list_all_iff)
      let ?w3 = "py_print [Str [CHR 0x0A], Str ''  Differences from FREEZE:'']
                   (report_same rs (py_print [] w2))"
      obtain w4 where
        "report_differences rs (snd entry) [''reset'', ''lru'', ''lfu''] ?w3 = (Inr (), w4)"
        using report_differences_fst [OF nz, of rs "[''reset'', ''lru'', ''lfu'']" ?w3]
        by (cases "report_differences rs (snd entry) [''reset'', ''lru'', ''lfu''] ?w3") simp
      with rj m Some show ?thesis by (simp add: verify_config_def Let_def)
    qed
  qed
qed

lemma verify_configs_result:
  "list_all (\<lambda>(name, chars, af, minW, maxW, len). len \<noteq> 0) configs \<Longrightarrow>
   (\<exists>argv input_bytes ex. run_failure e argv input_bytes = Some ex
      \<and> fst (verify_configs e configs w) = Inl ex) \<or>
   fst (verify_configs e configs w) = Inr ()"
proof (induction configs arbitrary: w)
  case Nil
  then show ?case by simp
next
  case (Cons config rest)
  obtain name chars af minW maxW len where c: "config = (name, chars, af, minW, maxW, len)"
    by (cases config)
  with Cons.prems have len: "len \<noteq> 0" and rest: "list_all (\<lambda>(name, chars, af, minW, maxW, len). len \<noteq> 0) rest"
    by simp_all
  let ?v = "verify_config e (name, chars, af, minW, maxW, len) w"
  from verify_config_result [OF len, of e name chars af minW maxW w]
  consider argv input_bytes ex where "run_failure e argv input_bytes = Some ex" "fst ?v = Inl ex"
    | "fst ?v = Inr ()" by blast
  then show ?case
  proof cases
    case 1
    then obtain w1 where "?v = (Inl ex, w1)" by (cases ?v) simp
    with c have "fst (verify_configs e (config # rest) w) = Inl ex" by simp
    with 1(1) show ?thesis by blast
  next
    case 2
    then obtain w1 where "?v = (Inr (), w1)" by (cases ?v) simp
    with c Cons.IH [OF rest, of w1] show ?thesis by simp
  qed
qed

lemma verify_script_result:
  "(\<exists>argv input_bytes ex. run_failure e argv input_bytes = Some ex
      \<and> fst (verify_script e w) = Inl ex) \<or>
   fst (verify_script e w) = Inr ()"
proof -
  let ?w3 = "py_print [Str (py_mul ''='' 80)]
               (random_seed e 42
                  (py_print [Str ''Verifying all 4 policies differ on very large random tests'',
                             Str [CHR 0x0A]] w))"
  have "list_all (\<lambda>(name, chars, af, minW, maxW, len). len \<noteq> 0) test_configs"
    by (simp add: test_configs_def)
  from verify_configs_result [OF this, of e ?w3]
  consider argv input_bytes ex where "run_failure e argv input_bytes = Some ex"
      "fst (verify_configs e test_configs ?w3) = Inl ex"
    | "fst (verify_configs e test_configs ?w3) = Inr ()" by blast
  then show ?thesis
  proof cases
    case 1
    then obtain w4 where "verify_configs e test_configs ?w3 = (Inl ex, w4)"
      by (cases "verify_configs e test_configs ?w3") simp
    then have "fst (verify_script e w) = Inl ex" by (simp add: verify_script_def Let_def)
    with 1(1) show ?thesis by blast
  next
    case 2
    then obtain w4 where "verify_configs e test_configs ?w3 = (Inr (), w4)"
      by (cases "verify_configs e test_configs ?w3") simp
    then show ?thesis by (simp add: verify_script_def Let_def)
  qed
qed

lemma run_failure_cases:
  "run_failure e argv input_bytes = Some ex \<Longrightarrow> (\<exists>m. ex = OSError m) \<or> ex = UnicodeDecodeError"
  by (auto simp: run_failure_def py_decode_def split: sum.splits if_splits)

lemma verify_script_cases:
  "(\<exists>m. fst (verify_script e w) = Inl (OSError m))
   \<or> fst (verify_script e w) = Inl UnicodeDecodeError
   \<or> fst (verify_script e w) = Inr ()"
  using verify_script_result [of e w] run_failure_cases [of e] by metis


lemma run_failure_copy_env: "run_failure copy_env argv input_bytes = None"
  by (simp add: run_failure_def run_copy_env)


lemma run_failure_garbled_env: "run_failure garbled_env argv input_bytes = Some UnicodeDecodeError"
  by (simp add: run_failure_def garbled_env_def py_decode_def utf8_valid.simps)

lemma verify_script_undecodable: "fst (verify_script garbled_env w) = Inl UnicodeDecodeError"
proof -
  let ?w3 = "py_print [Str (py_mul ''='' 80)]
               (random_seed garbled_env 42
                  (py_print [Str ''Verifying all 4 policies differ on very large random tests'',
                             Str [CHR 0x0A]] w))"
  have ct: "fst (compress_test garbled_env s ap minW maxW policy w') = Inl UnicodeDecodeError"
    for s ap minW maxW policy and w' :: "nat world"
    by (simp add: compress_test_fst garbled_env_def py_decode_def utf8_valid.simps)
  have mp: "fst (measure_policies garbled_env data af minW maxW len policies [] w')
              = Inl UnicodeDecodeError"
    for data af minW maxW len and w' :: "nat world"
  proof -
    obtain w1 where "compress_test garbled_env data af minW maxW ''freeze'' w'
                       = (Inl UnicodeDecodeError, w1)"
      using ct [of data af minW maxW "''freeze''" w']
      by (cases "compress_test garbled_env data af minW maxW ''freeze'' w'") simp
    then show ?thesis by (simp add: policies_def)
  qed
  have vc: "fst (verify_config garbled_env (name, chars, af, minW, maxW, len) w')
              = Inl UnicodeDecodeError"
    for name chars af minW maxW len and w' :: "nat world"
  proof -
    let ?w1 = "py_print [Str (py_mul ''-'' 80)]
                 (py_print [Str ''minW='', Num minW, Str '', maxW='', Num maxW]
                    (py_print [Str [CHR 0x0A], Str ''Alphabet: '', Str name, Str '' ('',
                               Num (int (length chars)), Str '' chars) - '', Num (int len),
                               Str '' random characters''] w'))"
    obtain data g where rj: "random_join garbled_env chars len (rng ?w1) = (data, g)"
      by (cases "random_join garbled_env chars len (rng ?w1)")
    let ?m = "measure_policies garbled_env data af minW maxW (int len) policies []
                (?w1\<lparr>rng := g\<rparr>)"
    obtain w2 where "?m = (Inl UnicodeDecodeError, w2)"
      using mp [of data af minW maxW "int len" "?w1\<lparr>rng := g\<rparr>"] by (cases ?m) simp
    with rj show ?thesis by (simp add: verify_config_def Let_def)
  qed
  obtain w4 where
    "verify_config garbled_env
       (''ab'', [''a'', ''b''], ''alphabets/ab.txt'', 2, 4, 10000) ?w3
     = (Inl UnicodeDecodeError, w4)"
    using vc [of "''ab''" "[''a'', ''b'']" "''alphabets/ab.txt''" 2 4 10000 ?w3]
    by (cases "verify_config garbled_env
                 (''ab'', [''a'', ''b''], ''alphabets/ab.txt'', 2, 4, 10000) ?w3") simp
  then show ?thesis
    by (simp add: verify_script_def Let_def test_configs_def)
qed




section \<open>The random sequences\<close>

text \<open>
  None of the logging, file and process steps touches the generator; only
  \<^verbatim>\<open>random_choice\<close> and \<^verbatim>\<open>random_seed\<close> do.
\<close>

lemma rng_log [simp]:
  "rng (log_test m w) = rng w" "rng (log_pass m w) = rng w" "rng (log_fail m w) = rng w"
  "rng (log_warn m w) = rng w" "rng (py_print m w) = rng w" "rng (write_file p c w) = rng w"
  by (simp_all add: log_test_def log_pass_def log_fail_def log_warn_def py_print_def
        write_file_def)

lemma rng_cet_compare: "rng (snd (cet_compare s n c d w)) = rng w"
  by (simp add: cet_compare_def Let_def split: option.split sum.split)

lemma rng_cet_expand: "rng (snd (cet_expand e s n c d w)) = rng w"
  by (simp add: cet_expand_def Let_def rng_cet_compare split: option.split sum.split)

lemma rng_cet_compress: "rng (snd (cet_compress e s ap minW maxW policy n i c d w)) = rng w"
  by (simp add: cet_compress_def Let_def rng_cet_expand split: option.split sum.split)

lemma rng_compress_expand_test:
  "rng (snd (compress_expand_test e s ap minW maxW policy n w)) = rng w"
  by (simp add: compress_expand_test_def Let_def case_prod_beta rng_cleanup rng_cet_compress)

lemma rng_run_sequences:
  "rng (snd (run_sequences e an af minW maxW policy seqs acc w)) = rng w"
proof (induction seqs arbitrary: acc w)
  case Nil
  then show ?case by simp
next
  case (Cons p rest)
  obtain n s where p: "p = (n, s)" by (cases p)
  let ?c = "compress_expand_test e s af minW maxW policy (an @ ''/'' @ policy @ ''/'' @ n) w"
  obtain r w1 where c: "?c = (r, w1)" by (cases ?c)
  have w1: "rng w1 = rng w"
    using rng_compress_expand_test [of e s af minW maxW policy "an @ ''/'' @ policy @ ''/'' @ n" w] c
    by simp
  show ?case
    using p c w1 Cons.IH
    by (simp add: Let_def split: sum.split option.split prod.split)
qed

lemma rng_run_policies:
  "rng (snd (run_policies e an af minW maxW seqs ps results w)) = rng w"
proof (induction ps arbitrary: results w)
  case Nil
  then show ?case by simp
next
  case (Cons policy rest)
  let ?w1 = "log_test [Str [CHR 0x0A], Str ''Testing policy: '', Str (py_upper policy)] w"
  let ?r = "run_sequences e an af minW maxW policy seqs [] ?w1"
  obtain r w2 where rs: "?r = (r, w2)" by (cases ?r)
  have "rng w2 = rng w"
    using rng_run_sequences [of e an af minW maxW policy seqs "[]" ?w1] rs by simp
  with rs Cons.IH show ?case
    by (simp add: Let_def split: sum.split option.split)
qed

lemma rng_lru_lfu_check: "rng (snd (lru_lfu_check results w)) = rng w"
  by (simp add: lru_lfu_check_def Let_def split: sum.split option.split)

lemma rng_test_alphabet_suite:
  "rng (snd (test_alphabet_suite e an chars af w)) = snd (generate_test_sequences e chars (rng w))"
proof -
  obtain r g where gen: "generate_test_sequences e chars (rng w) = (r, g)"
    by (cases "generate_test_sequences e chars (rng w)")
  show ?thesis
  proof (cases r)
    case (Inl ex)
    with gen show ?thesis by (simp add: test_alphabet_suite_def Let_def case_prod_beta)
  next
    case (Inr seqs)
    let ?minW = "fst (pick_bitwidths (int (length chars)))"
    let ?maxW = "snd (pick_bitwidths (int (length chars)))"
    let ?w4 = "log_test [Str ''Using minW='', Num ?minW, Str '', maxW='', Num ?maxW]
                (log_test [Str (py_mul ''='' 60)]
                  (log_test [Str ''Testing alphabet: '', Str an, Str '' ('',
                             Num (int (length chars)), Str '' chars)'']
                    (log_test [Str [CHR 0x0A], Str (py_mul ''='' 60)] w)))"
    let ?p = "run_policies e an af ?minW ?maxW seqs policies [] (?w4\<lparr>rng := g\<rparr>)"
    obtain pr w5 where rp: "?p = (pr, w5)" by (cases ?p)
    have "rng w5 = g"
      using rng_run_policies [of e an af ?minW ?maxW seqs policies "[]" "?w4\<lparr>rng := g\<rparr>"] rp
      by simp
    with gen Inr rp show ?thesis
      by (simp add: test_alphabet_suite_def Let_def case_prod_beta rng_lru_lfu_check
          split: sum.split option.split)
  qed
qed

lemma rng_compile_java: "rng (snd (compile_java e w)) = rng w"
  by (simp add: compile_java_def Let_def split: sum.split)

lemma rng_test_alphabet_validation: "rng (snd (test_alphabet_validation e w)) = rng w"
  by (simp add: test_alphabet_validation_def Let_def split: sum.split option.split)

lemma rng_edge_case: "rng (snd (edge_case e t argv stdin ok pm fm c w)) = rng w"
  by (simp add: edge_case_def Let_def split: sum.split)

lemma rng_edge_test_7: "rng (snd (edge_test_7 e c w)) = rng w"
  by (simp add: edge_test_7_def Let_def os_remove_def split: sum.split option.split prod.split)

lemma rng_and_then:
  assumes "\<And>a w'. rng (snd (f a w')) = rng w'" and "rng (snd m) = r"
  shows "rng (snd (and_then m f)) = r"
  using assms by (cases m) (auto simp: and_then_def split: sum.split)

lemma rng_test_edge_cases: "rng (snd (test_edge_cases e w)) = rng w"
  unfolding test_edge_cases_def Let_def
  by (intro rng_and_then) (simp_all add: rng_edge_case rng_edge_test_7)


lemma rng_ct_body: "rng (snd (ct_body e ap minW maxW policy i c w)) = rng w"
  by (simp add: ct_body_def Let_def split: sum.split option.split)

lemma rng_compress_test: "rng (snd (compress_test e s ap minW maxW policy w)) = rng w"
  by (simp add: compress_test_def Let_def case_prod_beta rng_cleanup rng_ct_body)

lemma rng_measure_policies:
  "rng (snd (measure_policies e data af minW maxW len ps results w)) = rng w"
proof (induction ps arbitrary: results w)
  case Nil
  then show ?case by simp
next
  case (Cons policy rest)
  let ?c = "compress_test e data af minW maxW policy w"
  obtain r w1 where c: "?c = (r, w1)" by (cases ?c)
  have "rng w1 = rng w"
    using rng_compress_test [of e data af minW maxW policy w] c by simp
  with c Cons.IH show ?case
    by (simp split: sum.split option.split)
qed

lemma rng_foldl_print:
  "rng (foldl (\<lambda>w (p1, p2). py_print [Str ''    '', Str p1, Str '' == '', Str p2] w) w0 xs)
     = rng w0"
  by (induction xs arbitrary: w0) (simp_all add: case_prod_beta)

lemma rng_report_same: "rng (report_same results w) = rng w"
  by (simp add: report_same_def Let_def rng_foldl_print)

lemma rng_report_differences:
  "rng (snd (report_differences results fr ps w)) = rng w"
  by (induction ps arbitrary: w) (simp_all add: Let_def split: option.split sum.split)

lemma rng_verify_config:
  "rng (snd (verify_config e (name, chars, af, minW, maxW, len) w))
     = snd (random_join e chars len (rng w))"
proof -
  let ?w1 = "py_print [Str (py_mul ''-'' 80)]
               (py_print [Str ''minW='', Num minW, Str '', maxW='', Num maxW]
                  (py_print [Str [CHR 0x0A], Str ''Alphabet: '', Str name, Str '' ('',
                             Num (int (length chars)), Str '' chars) - '', Num (int len),
                             Str '' random characters''] w))"
  obtain data g where rj: "random_join e chars len (rng w) = (data, g)"
    by (cases "random_join e chars len (rng w)")
  let ?m = "measure_policies e data af minW maxW (int len) policies [] (?w1\<lparr>rng := g\<rparr>)"
  obtain r w2 where m: "?m = (r, w2)" by (cases ?m)
  have w2: "rng w2 = g"
    using rng_measure_policies [of e data af minW maxW "int len" policies "[]" "?w1\<lparr>rng := g\<rparr>"] m
    by simp
  show ?thesis
  proof (cases r)
    case (Inl ex)
    with rj m w2 show ?thesis by (simp add: verify_config_def Let_def)
  next
    case (Inr rs)
    show ?thesis
    proof (cases "map_of rs ''freeze''")
      case None
      with rj m w2 Inr show ?thesis by (simp add: verify_config_def Let_def rng_report_same)
    next
      case (Some entry)
      let ?w3 = "py_print [Str [CHR 0x0A], Str ''  Differences from FREEZE:'']
                   (report_same rs (py_print [] w2))"
      let ?d = "report_differences rs (snd entry) [''reset'', ''lru'', ''lfu''] ?w3"
      obtain dr w4 where d: "?d = (dr, w4)" by (cases ?d)
      have "rng w4 = g"
        using rng_report_differences [of rs "snd entry" "[''reset'', ''lru'', ''lfu'']" ?w3] d w2
        by (simp add: rng_report_same)
      with rj m Inr Some d show ?thesis
        by (simp add: verify_config_def Let_def split: sum.split)
    qed
  qed
qed

lemma main_ignores_initial_rng: "main e (w\<lparr>rng := g\<rparr>) = main e w"
  by (simp add: main_def Let_def random_seed_def py_print_def)

lemma verify_script_ignores_initial_rng: "verify_script e (w\<lparr>rng := g\<rparr>) = verify_script e w"
  by (simp add: verify_script_def Let_def random_seed_def py_print_def)

lemma random_join_Suc_fst:
  "fst (random_join e chars (Suc k) g) =
     fst (random_choice e chars g) @ fst (random_join e chars k (snd (random_choice e chars g)))"
  by (simp add: case_prod_beta)

lemma random_short_differs:
  "fst (random_join copy_env [''a'', ''b''] 20 0) \<noteq> fst (random_join copy_env [''a'', ''b''] 20 1)"
proof -
  have n: "(20::nat) = Suc 19" by simp
  have a: "fst (random_choice copy_env [''a'', ''b''] 0) = ''a''"
    by (simp add: random_choice_def copy_env_def)
  have b: "fst (random_choice copy_env [''a'', ''b''] 1) = ''b''"
    by (simp add: random_choice_def copy_env_def)
  show ?thesis
    unfolding n random_join_Suc_fst a b by simp
qed

lemma lru_sequences_differ:
  "fst (generate_test_sequences_lru copy_env 0) \<noteq> fst (generate_test_sequences_lru copy_env 1)"
proof
  assume "fst (generate_test_sequences_lru copy_env 0) = fst (generate_test_sequences_lru copy_env 1)"
  then have "fst (generate_test_sequences_lru copy_env 0) ! 7
             = fst (generate_test_sequences_lru copy_env 1) ! 7" by simp
  then have "fst (random_join copy_env [''a'', ''b''] 20 0)
             = fst (random_join copy_env [''a'', ''b''] 20 1)"
    by (simp add: generate_test_sequences_lru_def case_prod_beta)
  with random_short_differs show False by simp
qed

text \<open>
  Claim C10: the random sequences of \<^verbatim>\<open>comprehensive_test.py\<close> and
  \<^verbatim>\<open>verify_policies_differ.py\<close> are deterministic. Both scripts replace the state of
  the generator by \<^verbatim>\<open>random.seed(42)\<close> before anything is drawn, so a run does not
  depend on the state the generator had at the start; between the seeding and the first
  suite nothing draws, and a suite or a configuration advances the generator exactly by
  the draws of its own sequences. \<^verbatim>\<open>test_lru.py\<close> never seeds: its verdict is taken over
  the sequences drawn from the state it finds, and two states can give different
  sequences.
\<close>

theorem seeded_sequences_deterministic:
  "main e (w\<lparr>rng := g\<rparr>) = main e w
   \<and> rng (snd (test_edge_cases e (snd (test_alphabet_validation e
                (snd (compile_java e (random_seed e 42 w))))))) = seed e 42
   \<and> rng (snd (test_alphabet_suite e alphabet_name chars alphabet_file w))
       = snd (generate_test_sequences e chars (rng w))
   \<and> verify_script e (w\<lparr>rng := g\<rparr>) = verify_script e w
   \<and> rng (snd (verify_config e (name, chars, alphabet_file, minW, maxW, len) w))
       = snd (random_join e chars len (rng w))
   \<and> (fst (run_all_tests e w) \<longleftrightarrow>
        (\<forall>(test_name, input_data) \<in> set (fst (generate_test_sequences_lru e (rng w))).
           lru_case_passes e input_data))
   \<and> fst (generate_test_sequences_lru copy_env 0) \<noteq> fst (generate_test_sequences_lru copy_env 1)"
proof (intro conjI)
  show "main e (w\<lparr>rng := g\<rparr>) = main e w"
    by (rule main_ignores_initial_rng)
  show "rng (snd (test_edge_cases e (snd (test_alphabet_validation e
                (snd (compile_java e (random_seed e 42 w))))))) = seed e 42"
    by (simp add: rng_test_edge_cases rng_test_alphabet_validation rng_compile_java
        random_seed_def)
  show "rng (snd (test_alphabet_suite e alphabet_name chars alphabet_file w))
       = snd (generate_test_sequences e chars (rng w))"
    by (rule rng_test_alphabet_suite)
  show "verify_script e (w\<lparr>rng := g\<rparr>) = verify_script e w"
    by (rule verify_script_ignores_initial_rng)
  show "rng (snd (verify_config e (name, chars, alphabet_file, minW, maxW, len) w))
       = snd (random_join e chars len (rng w))"
    by (rule rng_verify_config)
  show "fst (run_all_tests e w) \<longleftrightarrow>
        (\<forall>(test_name, input_data) \<in> set (fst (generate_test_sequences_lru e (rng w))).
           lru_case_passes e input_data)"
    by (rule run_all_tests_iff)
  show "fst (generate_test_sequences_lru copy_env 0) \<noteq> fst (generate_test_sequences_lru copy_env 1)"
    by (rule lru_sequences_differ)
qed

theorem seeded_sequences_deterministic_witness:
  "main copy_env (empty_world\<lparr>rng := 7\<rparr>) = main copy_env empty_world
   \<and> verify_script copy_env (empty_world\<lparr>rng := 7\<rparr>) = verify_script copy_env empty_world
   \<and> fst (run_all_tests copy_env empty_world)
   \<and> list_all (\<lambda>(test_name, input_data). lru_case_passes copy_env input_data)
         (fst (generate_test_sequences_lru copy_env (rng empty_world)))"
proof -
  have cases: "list_all (\<lambda>(test_name, input_data). lru_case_passes copy_env input_data)
         (fst (generate_test_sequences_lru copy_env (rng empty_world)))"
    by (auto simp: list_all_iff intro: lru_case_passes_copy_env lru_texts_plain)
  with seeded_sequences_deterministic [where e = copy_env and w = empty_world and g = 7]
  show ?thesis by (simp add: list_all_iff)
qed


section \<open>The compression ratio\<close>

text \<open>
  Claim C9: the compression-ratio computation of every function of the harness is total,
  for every input and every behaviour of the tool: no \<^verbatim>\<open>ZeroDivisionError\<close> leaves
  \<^verbatim>\<open>compress_expand_test\<close> or \<^verbatim>\<open>verify_policies_differ.py\<close>, and none is caught
  and reported by \<^verbatim>\<open>run_test\<close> or \<^verbatim>\<open>test_policy\<close>; for the empty input a run that
  succeeds reports the ratio 0.
\<close>

theorem ratio_total:
  "fst (compress_expand_test e s path minW maxW policy name w) \<noteq> Inl ZeroDivisionError
   \<and> fst (run_test e test_name s lru_policy lru_minW lru_maxW w)
       \<noteq> (False, [Str ''Exception: '', Exc ZeroDivisionError])
   \<and> fst (test_policy e policy_name s w)
       \<noteq> (False, [Str ''Exception: '', Exc ZeroDivisionError])
   \<and> fst (verify_script e w) \<noteq> Inl ZeroDivisionError
   \<and> (passed (fst (compress_expand_test e [] path minW maxW policy name w)) \<longrightarrow>
        fst (compress_expand_test e [] path minW maxW policy name w) = Inr (True, Some 0))
   \<and> (fst (fst (run_test e test_name [] lru_policy lru_minW lru_maxW w)) \<longrightarrow>
        fst (run_test e test_name [] lru_policy lru_minW lru_maxW w)
          = (True, [Str ''Success! Compression ratio: '', Flt 0, Str ''%'']))
   \<and> (fst (fst (test_policy e policy_name [] w)) \<longrightarrow>
        fst (test_policy e policy_name [] w)
          = (True, [Str ''Success! Compression ratio: '', Flt 0, Str ''%'']))"
proof (intro conjI impI)
  show "fst (compress_expand_test e s path minW maxW policy name w) \<noteq> Inl ZeroDivisionError"
    by (rule cet_not_zero_division)
  show "fst (run_test e test_name s lru_policy lru_minW lru_maxW w)
          \<noteq> (False, [Str ''Exception: '', Exc ZeroDivisionError])"
    by (rule run_test_not_zero_division)
  show "fst (test_policy e policy_name s w)
          \<noteq> (False, [Str ''Exception: '', Exc ZeroDivisionError])"
    by (rule test_policy_not_zero_division)
  show "fst (verify_script e w) \<noteq> Inl ZeroDivisionError"
    using verify_script_cases [of e w] by auto
  show "fst (compress_expand_test e [] path minW maxW policy name w) = Inr (True, Some 0)"
    if "passed (fst (compress_expand_test e [] path minW maxW policy name w))"
    using that by (rule cet_empty_ratio)
  show "fst (run_test e test_name [] lru_policy lru_minW lru_maxW w)
          = (True, [Str ''Success! Compression ratio: '', Flt 0, Str ''%''])"
    if "fst (fst (run_test e test_name [] lru_policy lru_minW lru_maxW w))"
    using that by (rule run_test_empty_ratio)
  show "fst (test_policy e policy_name [] w)
          = (True, [Str ''Success! Compression ratio: '', Flt 0, Str ''%''])"
    if "fst (fst (test_policy e policy_name [] w))"
    using that by (rule test_policy_empty_ratio)
qed

theorem ratio_total_witness:
  "passed (fst (compress_expand_test copy_env [] ''alphabets/ab.txt'' 2 4 ''lru'' ''t'' empty_world))
   \<and> fst (compress_expand_test copy_env [] ''alphabets/ab.txt'' 2 4 ''lru'' ''t'' empty_world)
       = Inr (True, Some 0)
   \<and> fst (fst (run_test copy_env ''empty'' [] ''lru'' 9 12 empty_world))
   \<and> fst (run_test copy_env ''empty'' [] ''lru'' 9 12 empty_world)
       = (True, [Str ''Success! Compression ratio: '', Flt 0, Str ''%''])
   \<and> fst (fst (test_policy copy_env ''lru'' [] empty_world))
   \<and> fst (test_policy copy_env ''lru'' [] empty_world)
       = (True, [Str ''Success! Compression ratio: '', Flt 0, Str ''%''])"
proof -
  have a: "passed (fst (compress_expand_test copy_env [] ''alphabets/ab.txt'' 2 4 ''lru'' ''t'' empty_world))"
    by (simp add: cet_passed_iff expand_compress_copy_env)
  have b: "fst (fst (run_test copy_env ''empty'' [] ''lru'' 9 12 empty_world))"
    by (simp add: run_test_passed_plain plain_name_def expand_compress_copy_env
          compiles_copy_env)
  have c: "fst (fst (test_policy copy_env ''lru'' [] empty_world))"
    by (simp add: test_policy_passed_plain plain_name_def expand_compress_copy_env
          compiles_copy_env)
  from a b c
    ratio_total [where e = copy_env and path = "''alphabets/ab.txt''"
                   and minW = 2 and maxW = 4 and policy = "''lru''" and name = "''t''"
                   and w = empty_world and test_name = "''empty''"
                   and lru_policy = "''lru''" and lru_minW = 9 and lru_maxW = 12
                   and policy_name = "''lru''"]
  show ?thesis by blast
qed

section \<open>The alphabet check of the encoder\<close>

lemma codeOf_None_iff: "codeOf alphabet symbol = None \<longleftrightarrow> symbol \<notin> set alphabet"
  by (induction alphabet) auto

lemma encode_rejects:
  assumes "symbol \<notin> set alphabet" and "set before \<subseteq> set alphabet"
  shows "encode cbk alphabet cb buffer emitted (before @ symbol # rest)
           = Inl (SymbolNotInAlphabet symbol)"
  using assms
proof (induction before arbitrary: cb buffer emitted)
  case Nil
  then have "codeOf alphabet symbol = None" by (simp add: codeOf_None_iff)
  then show ?case by simp
next
  case (Cons x before)
  from Cons.prems have "x \<in> set alphabet" by simp
  then obtain c where c: "codeOf alphabet x = Some c"
    using codeOf_None_iff [of alphabet x] by (cases "codeOf alphabet x") auto
  from Cons show ?case by (simp add: c Let_def split_beta)
qed

lemma encode_accepts:
  "set input_data \<subseteq> set alphabet \<Longrightarrow>
     \<exists>codewords. encode cbk alphabet cb buffer emitted input_data = Inr codewords"
proof (induction input_data arbitrary: cb buffer emitted)
  case Nil
  then show ?case by simp
next
  case (Cons x input_data)
  from Cons.prems have "x \<in> set alphabet" by simp
  then obtain c where c: "codeOf alphabet x = Some c"
    using codeOf_None_iff [of alphabet x] by (cases "codeOf alphabet x") auto
  from Cons show ?case by (simp add: c Let_def split_beta)
qed

lemma compress_rejects:
  assumes "symbol \<notin> set alphabet" and "set before \<subseteq> set alphabet"
  shows "compress cbk cb alphabet (before @ symbol # rest)
           = \<lparr>exit_status = 1, output_stream = None,
               diagnostic = Some (SymbolNotInAlphabet symbol)\<rparr>"
  by (simp add: compress_def encode_rejects [OF assms])

text \<open>
  Claim C3: compressing the input \<^verbatim>\<open>abc\<close> against the alphabet of \<^verbatim>\<open>a\<close> and \<^verbatim>\<open>b\<close>
  fails before a valid stream is produced, whatever the Codebook does: the exit status is
  not 0, no stream is output as successful, and the diagnostic identifies the symbol
  \<^verbatim>\<open>c\<close>.
\<close>

theorem alphabet_rejection:
  "exit_status (compress cbk cb ''ab'' ''abc'') \<noteq> 0
   \<and> output_stream (compress cbk cb ''ab'' ''abc'') = None
   \<and> diagnostic (compress cbk cb ''ab'' ''abc'') = Some (SymbolNotInAlphabet (CHR ''c''))"
proof -
  have "compress cbk cb ''ab'' (''ab'' @ CHR ''c'' # [])
          = \<lparr>exit_status = 1, output_stream = None,
              diagnostic = Some (SymbolNotInAlphabet (CHR ''c''))\<rparr>"
    by (rule compress_rejects) simp_all
  then show ?thesis by simp
qed

end
